theory Spec2Isabelle
  imports Main "HOL-Library.Word"
begin

text \<open>
  A model of the memo application: a page on which notes are typed or dictated and then
  saved, in two variants. The relay variant (the script with \<open>appState\<close>) posts each
  note to a spreadsheet web app; the drive variant (the script with \<open>STATE\<close>) appends
  it to one Markdown document per day in a cloud drive, after sign-in. Both keep the notes
  that could not be sent in \<open>localStorage\<close> under the key \<open>pending_memos\<close> and send them
  later. Every handler of the two scripts is a function from the page before it to the
  page after it; what the handlers do outside the page is kept in a log of effects.
\<close>

section \<open>JavaScript strings\<close>

text \<open>
  A JavaScript string is a sequence of UTF-16 code units. The literals of the two
  programs that are plain ASCII are written with \<open>js\<close>; the Japanese literals are
  written as their code units.
\<close>

type_synonym jschar = "16 word"
type_synonym jsstring = "jschar list"

definition js :: "string \<Rightarrow> jsstring" where
  "js s = map of_char s"

text \<open>
  \<open>String.prototype.trim\<close>: the code units removed at both ends are ECMAScript's
  WhiteSpace and LineTerminator: TAB, LF, VT, FF, CR, SP, NBSP, U+1680, U+2000 to U+200A,
  LS, PS, U+202F, U+205F, the ideographic space U+3000 and the byte order mark U+FEFF.
\<close>

definition isWhiteSpace :: "jschar \<Rightarrow> bool" where
  "isWhiteSpace c \<longleftrightarrow>
     c \<in> set [0x09, 0x0A, 0x0B, 0x0C, 0x0D, 0x20, 0xA0, 0x1680,
              0x2000, 0x2001, 0x2002, 0x2003, 0x2004, 0x2005, 0x2006, 0x2007, 0x2008,
              0x2009, 0x200A, 0x2028, 0x2029, 0x202F, 0x205F, 0x3000, 0xFEFF]"

definition trimStart :: "jsstring \<Rightarrow> jsstring" where
  "trimStart s = dropWhile isWhiteSpace s"

definition trimEnd :: "jsstring \<Rightarrow> jsstring" where
  "trimEnd s = rev (dropWhile isWhiteSpace (rev s))"

definition trim :: "jsstring \<Rightarrow> jsstring" where
  "trim s = trimEnd (trimStart s)"

text \<open>\<open>String(n)\<close> for an integer \<open>n\<close>: its decimal digits, with a minus sign below zero.\<close>

definition digit :: "nat \<Rightarrow> jschar" where
  "digit d = of_nat (48 + d)"

function String_nat :: "nat \<Rightarrow> jsstring" where
  "String_nat n = (if n < 10 then [digit n] else String_nat (n div 10) @ [digit (n mod 10)])"
  by pat_completeness auto
termination
  by (relation "measure id") auto

declare String_nat.simps [simp del]

definition String_int :: "int \<Rightarrow> jsstring" where
  "String_int i = (if i < 0 then js ''-'' @ String_nat (nat (- i)) else String_nat (nat i))"

text \<open>\<open>s.padStart(n, c)\<close> with a filler of one code unit.\<close>

definition padStart :: "nat \<Rightarrow> jschar \<Rightarrow> jsstring \<Rightarrow> jsstring" where
  "padStart n c s = replicate (n - length s) c @ s"


text \<open>Lower-case hexadecimal digits, for the escapes of \<open>JSON.stringify\<close>.\<close>

definition hexdigit :: "nat \<Rightarrow> jschar" where
  "hexdigit d = (if d < 10 then of_nat (48 + d) else of_nat (87 + d))"

definition UnicodeEscape :: "jschar \<Rightarrow> jsstring" where
  "UnicodeEscape c =
     [0x5C, 0x75, hexdigit (unat c div 4096), hexdigit (unat c div 256 mod 16),
      hexdigit (unat c div 16 mod 16), hexdigit (unat c mod 16)]"

definition isLeadingSurrogate :: "jschar \<Rightarrow> bool" where
  "isLeadingSurrogate c \<longleftrightarrow> 0xD800 \<le> c \<and> c \<le> 0xDBFF"

definition isTrailingSurrogate :: "jschar \<Rightarrow> bool" where
  "isTrailingSurrogate c \<longleftrightarrow> 0xDC00 \<le> c \<and> c \<le> 0xDFFF"

text \<open>
  \<open>JSON.stringify\<close> of a string (ECMAScript's QuoteJSONString): the quote, the
  backslash and the control characters are escaped, a surrogate that is not part of a pair
  is written as a \<open>\u\<close> escape, every other code unit is copied.
\<close>

fun QuoteJSONString_units :: "jsstring \<Rightarrow> jsstring" where
  "QuoteJSONString_units [] = []"
| "QuoteJSONString_units (c # cs) =
     (if c = 0x08 then [0x5C, 0x62] @ QuoteJSONString_units cs
      else if c = 0x09 then [0x5C, 0x74] @ QuoteJSONString_units cs
      else if c = 0x0A then [0x5C, 0x6E] @ QuoteJSONString_units cs
      else if c = 0x0C then [0x5C, 0x66] @ QuoteJSONString_units cs
      else if c = 0x0D then [0x5C, 0x72] @ QuoteJSONString_units cs
      else if c = 0x22 then [0x5C, 0x22] @ QuoteJSONString_units cs
      else if c = 0x5C then [0x5C, 0x5C] @ QuoteJSONString_units cs
      else if c < 0x20 then UnicodeEscape c @ QuoteJSONString_units cs
      else if isLeadingSurrogate c then
        (case cs of
           [] \<Rightarrow> UnicodeEscape c
         | d # ds \<Rightarrow>
             if isTrailingSurrogate d then c # d # QuoteJSONString_units ds
             else UnicodeEscape c @ QuoteJSONString_units cs)
      else if isTrailingSurrogate c then UnicodeEscape c @ QuoteJSONString_units cs
      else c # QuoteJSONString_units cs)"

definition JSON_stringify_string :: "jsstring \<Rightarrow> jsstring" where
  "JSON_stringify_string s = [0x22] @ QuoteJSONString_units s @ [0x22]"

section \<open>The platform: dates, errors, requests, effects\<close>

text \<open>
  A \<open>Date\<close> object is modelled by what its getters return: the fields of the local
  calendar date and time, the fields of the same instant in UTC, and the long Japanese
  rendering of the day (with the weekday), which only the date display uses.
\<close>

record jsdate =
  getFullYear :: int
  getMonth :: nat
  getDate :: nat
  getHours :: nat
  getMinutes :: nat
  getUTCFullYear :: int
  getUTCMonth :: nat
  getUTCDate :: nat
  getUTCHours :: nat
  getUTCMinutes :: nat
  getUTCSeconds :: nat
  getUTCMilliseconds :: nat
  toLocaleDateString_long :: jsstring

definition pad2 :: "nat \<Rightarrow> jsstring" where
  "pad2 n = padStart 2 0x30 (String_nat n)"

text \<open>
  \<open>Date.prototype.toISOString\<close>: \<open>YYYY-MM-DDTHH:mm:ss.sssZ\<close> in UTC; a year outside
  0 to 9999 is written with a sign and six digits.
\<close>

definition toISOString :: "jsdate \<Rightarrow> jsstring" where
  "toISOString d =
     (let y = getUTCFullYear d;
          year = (if 0 \<le> y \<and> y \<le> 9999 then padStart 4 0x30 (String_nat (nat y))
                  else (if y < 0 then js ''-'' else js ''+'') @ padStart 6 0x30 (String_nat (nat \<bar>y\<bar>)))
      in year @ js ''-'' @ pad2 (getUTCMonth d + 1) @ js ''-'' @ pad2 (getUTCDate d) @ js ''T''
         @ pad2 (getUTCHours d) @ js '':'' @ pad2 (getUTCMinutes d) @ js '':''
         @ pad2 (getUTCSeconds d) @ js ''.'' @ padStart 3 0x30 (String_nat (getUTCMilliseconds d))
         @ js ''Z'')"

text \<open>\<open>s.split('\n')\<close>: the lines of a string, for stating what a document looks like.\<close>

fun splitLines :: "jsstring \<Rightarrow> jsstring list" where
  "splitLines [] = [[]]"
| "splitLines (c # cs) =
     (if c = 0x0A then [] # splitLines cs
      else (case splitLines cs of [] \<Rightarrow> [[c]] | l # ls \<Rightarrow> (c # l) # ls))"

text \<open>
  The shape of a string, for stating what the formatters return: in the pattern a
  \<open>0\<close> stands for a decimal digit and every other character for itself.
\<close>

definition isDecimalDigit :: "jschar \<Rightarrow> bool" where
  "isDecimalDigit c \<longleftrightarrow> 0x30 \<le> c \<and> c \<le> 0x39"

fun matches :: "string \<Rightarrow> jsstring \<Rightarrow> bool" where
  "matches [] [] = True"
| "matches (p # ps) (c # cs) =
     ((if p = CHR ''0'' then isDecimalDigit c else c = of_char p) \<and> matches ps cs)"
| "matches ps cs = False"

text \<open>The ISO 8601 format of ECMAScript, with a year of four digits or a signed one of six.\<close>

definition isISO8601 :: "jsstring \<Rightarrow> bool" where
  "isISO8601 s \<longleftrightarrow>
     matches ''0000-00-00T00:00:00.000Z'' s
     \<or> matches ''+000000-00-00T00:00:00.000Z'' s
     \<or> matches ''-000000-00-00T00:00:00.000Z'' s"

text \<open>The ranges of the UTC fields of a \<open>Date\<close>.\<close>

definition valid_utc :: "jsdate \<Rightarrow> bool" where
  "valid_utc d \<longleftrightarrow>
     \<bar>getUTCFullYear d\<bar> < 1000000 \<and> getUTCMonth d < 12 \<and> getUTCDate d < 32
     \<and> getUTCHours d < 24 \<and> getUTCMinutes d < 60 \<and> getUTCSeconds d < 60
     \<and> getUTCMilliseconds d < 1000"

text \<open>
  \<open>toLocaleTimeString('ja-JP', {hour: '2-digit', minute: '2-digit'})\<close>: the local hour
  and minute, two digits each, on the 24-hour clock.
\<close>

definition toLocaleTimeString :: "jsdate \<Rightarrow> jsstring" where
  "toLocaleTimeString d = pad2 (getHours d) @ js '':'' @ pad2 (getMinutes d)"

text \<open>
  \<open>toLocaleString('ja-JP', ...)\<close> with a numeric year and two-digit month, day, hour
  and minute: \<open>YYYY/MM/DD HH:MM\<close>. The year is the year of the era: a year of zero or
  below is printed as the year before the common era that it is, year 0 as 1 and year -5
  as 6, without a sign.
\<close>

definition eraYear :: "int \<Rightarrow> int" where
  "eraYear y = (if y \<le> 0 then 1 - y else y)"

definition toLocaleString :: "jsdate \<Rightarrow> jsstring" where
  "toLocaleString d =
     String_int (eraYear (getFullYear d)) @ js ''/'' @ pad2 (getMonth d + 1) @ js ''/''
     @ pad2 (getDate d) @ js '' '' @ pad2 (getHours d) @ js '':'' @ pad2 (getMinutes d)"

text \<open>
  A thrown value, by the three things the handlers read from it: \<open>result.error.message\<close>
  (the errors of the Google API client carry it), \<open>message\<close>, and what
  \<open>JSON.stringify\<close> makes of the whole object. A field that is missing is \<open>None\<close>.
\<close>

record js_error =
  result_error_message :: "jsstring option"
  message :: "jsstring option"
  stringified :: jsstring

text \<open>\<open>a || b\<close> on an optional string: a missing or empty string is falsy.\<close>

definition truthy :: "jsstring option \<Rightarrow> bool" where
  "truthy v = (case v of None \<Rightarrow> False | Some t \<Rightarrow> t \<noteq> [])"

record PendingMemo =
  memo_text :: jsstring
  memo_timestamp :: jsstring

record drive_file =
  file_id :: jsstring
  file_name :: jsstring

text \<open>The outbound calls, each with the arguments the source passes.\<close>

datatype request =
    Fetch (fetch_url: jsstring) (fetch_method: jsstring) (fetch_mode: jsstring)
      (fetch_content_type: jsstring) (fetch_body: jsstring)
  | FilesList (list_q: jsstring) (list_fields: jsstring) (list_spaces: jsstring)
  | FilesGet (get_fileId: jsstring) (get_alt: jsstring)
  | ClientRequest (req_path: jsstring) (req_method: jsstring) (req_uploadType: jsstring)
      (req_content_type: jsstring) (req_body: jsstring)
  | ClientInit (init_apiKey: jsstring) (init_discoveryDoc: jsstring)

datatype timer_action = UpdateStatusLater jsstring jsstring | InitGisLater

text \<open>
  What a handler does to the world outside the page, in the order it does it. A network
  call is logged with its outcome: \<open>True\<close> when the promise resolved, \<open>False\<close> when it
  rejected.
\<close>

datatype effect =
    Alert jsstring
  | ConsoleLog jsstring
  | ConsoleWarn jsstring
  | ConsoleError jsstring js_error
  | SetItem jsstring "PendingMemo list"
  | RemoveItem jsstring
  | Net request bool
  | RecognitionStartCall
  | RecognitionStopCall
  | RequestAccessToken jsstring
  | GapiLoad jsstring
  | Uncaught js_error

fun isNet :: "effect \<Rightarrow> bool" where
  "isNet (Net r ok) = True"
| "isNet e = False"

fun faulted :: "effect \<Rightarrow> bool" where
  "faulted (Net r ok) = (\<not> ok)"
| "faulted e = False"

fun isAlert :: "effect \<Rightarrow> bool" where
  "isAlert (Alert m) = True"
| "isAlert e = False"


text \<open>
  The page: the properties of the DOM elements that the scripts read or write, the local
  storage, the timers that are pending and the effects so far. The value stored under a
  key of \<open>localStorage\<close> is the JSON text of a list of memos; it is kept as the list
  itself, \<open>JSON.parse\<close> being the inverse of \<open>JSON.stringify\<close> on such lists. Writes to
  the storage are taken to succeed.
\<close>

record page =
  statusText_textContent :: jsstring
  statusDot_className :: jsstring
  dateDisplay_textContent :: jsstring
  memoText_value :: jsstring
  micBtn_listening :: bool
  micBtn_display_none :: bool
  saveBtn_disabled :: bool
  localStorage :: "jsstring \<Rightarrow> PendingMemo list option"
  timers :: "(timer_action \<times> nat) list"
  trace :: "effect list"

record drive_config =
  API_KEY :: jsstring
  DISCOVERY_DOC :: jsstring
  CLIENT_ID :: jsstring
  SCOPES :: jsstring
  FOLDER_ID :: jsstring

text \<open>
  The environment answers what the scripts ask of it. Each answer is indexed by the number
  of effects that came before the question, so that two calls of one run may be answered
  differently. Asynchronous handlers are run to their end before the next event; time
  passes, and the network answers, at the awaits between their effects.
\<close>

record env =
  clock :: "nat \<Rightarrow> jsdate"
  navigator_onLine :: "nat \<Rightarrow> bool"
  SpeechRecognition :: bool
  fetch_outcome :: "nat \<Rightarrow> js_error + unit"
  files_list_outcome :: "nat \<Rightarrow> js_error + drive_file list"
  files_get_outcome :: "nat \<Rightarrow> js_error + jsstring"
  client_request_outcome :: "nat \<Rightarrow> js_error + unit"
  client_init_outcome :: "nat \<Rightarrow> js_error + unit"
  getToken :: "nat \<Rightarrow> bool"
  window_google :: "nat \<Rightarrow> bool"
  APP_CONFIG :: drive_config

definition new_Date :: "env \<Rightarrow> 'a page_scheme \<Rightarrow> jsdate" where
  "new_Date env s = clock env (length (trace s))"

definition emit :: "effect \<Rightarrow> 'a page_scheme \<Rightarrow> 'a page_scheme" where
  "emit e s = s\<lparr>trace := trace s @ [e]\<rparr>"

definition new_effects :: "'a page_scheme \<Rightarrow> 'b page_scheme \<Rightarrow> effect list" where
  "new_effects s s' = drop (length (trace s)) (trace s')"

definition setTimeout :: "timer_action \<Rightarrow> nat \<Rightarrow> 'a page_scheme \<Rightarrow> 'a page_scheme" where
  "setTimeout f ms s = s\<lparr>timers := timers s @ [(f, ms)]\<rparr>"

definition pending_memos :: jsstring where
  "pending_memos = js ''pending_memos''"

text \<open>\<open>JSON.parse(localStorage.getItem('pending_memos') || '[]')\<close>\<close>

definition getPending :: "'a page_scheme \<Rightarrow> PendingMemo list" where
  "getPending s = (case localStorage s pending_memos of None \<Rightarrow> [] | Some ms \<Rightarrow> ms)"

definition setItem :: "jsstring \<Rightarrow> PendingMemo list \<Rightarrow> 'a page_scheme \<Rightarrow> 'a page_scheme" where
  "setItem k v s = emit (SetItem k v) (s\<lparr>localStorage := (localStorage s)(k \<mapsto> v)\<rparr>)"

definition removeItem :: "jsstring \<Rightarrow> 'a page_scheme \<Rightarrow> 'a page_scheme" where
  "removeItem k s = emit (RemoveItem k) (s\<lparr>localStorage := (localStorage s)(k := None)\<rparr>)"

text \<open>The results of speech recognition: every result has a first alternative.\<close>

record SpeechRecognitionResult =
  isFinal :: bool
  transcript0 :: jsstring

record SpeechRecognitionEvent =
  resultIndex :: nat
  results :: "SpeechRecognitionResult list"

section \<open>The relay variant (posts to the spreadsheet web app)\<close>

record relay_app = page +
  appState_isListening :: bool
  appState_isOnline :: bool

definition GAS_URL :: jsstring where
  "GAS_URL = js ''https://script.google.com/macros/s/AKfycbwan-p0LTJGqEZPwOLItHSV3Iyj58AlHfx7uvkfV_TCFL_ESYiXSSNRbj3D1NAWTgRI/exec''"

text \<open>The Japanese literals of the relay script, by their code units.\<close>

definition msg_listening :: jsstring where
  "msg_listening = [0x97F3, 0x58F0, 0x3092, 0x805E, 0x304D, 0x53D6, 0x308A, 0x4E2D, 0x2E, 0x2E, 0x2E]"

definition msg_saving :: jsstring where
  "msg_saving = [0x4FDD, 0x5B58, 0x4E2D, 0x2E, 0x2E, 0x2E]"

definition msg_saved :: jsstring where
  "msg_saved = [0x4FDD, 0x5B58, 0x3057, 0x307E, 0x3057, 0x305F, 0xFF01]"

definition msg_saved_locally :: jsstring where
  "msg_saved_locally =
     [0x7AEF, 0x672B, 0x5185, 0x306B, 0x4EEE, 0x4FDD, 0x5B58, 0x3057, 0x307E, 0x3057, 0x305F]"

definition msg_save_failed_notice :: jsstring where
  "msg_save_failed_notice =
     [0x4FDD, 0x5B58, 0x306B, 0x5931, 0x6557, 0x3057, 0x307E, 0x3057, 0x305F, 0xFF08, 0x7AEF,
      0x672B, 0x5185, 0x306B, 0x4EEE, 0x4FDD, 0x5B58, 0x3057, 0x307E, 0x3057, 0x305F, 0xFF09,
      0x3A, 0x20]"

definition msg_kept_locally :: jsstring where
  "msg_kept_locally =
     [0x7AEF, 0x672B, 0x5185, 0x306B, 0x4EEE, 0x4FDD, 0x5B58, 0x6E08, 0xFF08, 0x5F8C, 0x3067,
      0x540C, 0x671F, 0x3057, 0x307E, 0x3059, 0xFF09]"

definition msg_syncing :: jsstring where
  "msg_syncing = [0x540C, 0x671F, 0x4E2D, 0x2E, 0x2E, 0x2E]"

definition offline_marker :: jsstring where
  "offline_marker =
     [0x28, 0x30AA, 0x30D5, 0x30E9, 0x30A4, 0x30F3, 0x6642, 0x306E, 0x4EEE, 0x4FDD, 0x5B58,
      0x29, 0x20]"

definition msg_synced :: jsstring where
  "msg_synced = [0x540C, 0x671F, 0x5B8C, 0x4E86, 0xFF01]"

definition msg_sync_failed :: jsstring where
  "msg_sync_failed =
     [0x540C, 0x671F, 0x5931, 0x6557, 0xFF08, 0x5F8C, 0x3067, 0x518D, 0x8A66, 0x884C, 0x3057,
      0x307E, 0x3059, 0xFF09]"

definition msg_unsupported :: jsstring where
  "msg_unsupported =
     [0x3053, 0x306E, 0x30D6, 0x30E9, 0x30A6, 0x30B6, 0x306F, 0x97F3, 0x58F0, 0x5165, 0x529B,
      0x3092, 0x30B5, 0x30DD, 0x30FC, 0x30C8, 0x3057, 0x3066, 0x3044, 0x307E, 0x305B, 0x3093,
      0x3002, 0x43, 0x68, 0x72, 0x6F, 0x6D, 0x65, 0x20, 0x30D6, 0x30E9, 0x30A6, 0x30B6, 0x3092,
      0x4F7F, 0x7528, 0x3057, 0x3066, 0x304F, 0x3060, 0x3055, 0x3044, 0x3002]"

definition warn_unsupported :: jsstring where
  "warn_unsupported =
     [0x3053, 0x306E, 0x30D6, 0x30E9, 0x30A6, 0x30B6, 0x306F, 0x97F3, 0x58F0, 0x5165, 0x529B,
      0x41, 0x50, 0x49, 0x3092, 0x30B5, 0x30DD, 0x30FC, 0x30C8, 0x3057, 0x3066, 0x3044, 0x307E,
      0x305B, 0x3093, 0x3002]"

definition log_save_failed :: jsstring where
  "log_save_failed =
     [0x30B9, 0x30D7, 0x30EC, 0x30C3, 0x30C9, 0x30B7, 0x30FC, 0x30C8, 0x3078, 0x306E, 0x4FDD,
      0x5B58, 0x306B, 0x5931, 0x6557, 0x3057, 0x307E, 0x3057, 0x305F]"

definition log_sync_failed :: jsstring where
  "log_sync_failed =
     [0x540C, 0x671F, 0xFF08, 0x4E00, 0x62EC, 0x9001, 0x4FE1, 0xFF09, 0x306B, 0x5931, 0x6557,
      0x3057, 0x307E, 0x3057, 0x305F]"

definition log_unsent_prefix :: jsstring where
  "log_unsent_prefix = [0x672A, 0x9001, 0x4FE1, 0x306E, 0x30E1, 0x30E2, 0x304C, 0x20]"

definition log_unsent_suffix :: jsstring where
  "log_unsent_suffix =
     [0x20, 0x4EF6, 0x3042, 0x308A, 0x307E, 0x3059, 0x3002, 0x63A5, 0x7D9A, 0x6642, 0x306B,
      0x9001, 0x4FE1, 0x3055, 0x308C, 0x307E, 0x3059, 0x3002]"

definition updateAppStatusMessage :: "jsstring \<Rightarrow> jsstring \<Rightarrow> relay_app \<Rightarrow> relay_app" where
  "updateAppStatusMessage txt dotType s =
     s\<lparr>statusText_textContent := txt, statusDot_className := js ''status-dot '' @ dotType\<rparr>"

definition initializeDateDisplay :: "env \<Rightarrow> relay_app \<Rightarrow> relay_app" where
  "initializeDateDisplay env s =
     s\<lparr>dateDisplay_textContent := toLocaleDateString_long (new_Date env s)\<rparr>"

definition updateOnlineStatusDisplay :: "env \<Rightarrow> relay_app \<Rightarrow> relay_app" where
  "updateOnlineStatusDisplay env s =
     (if navigator_onLine env (length (trace s))
      then updateAppStatusMessage (js ''ONLINE'') (js ''online'') s
      else updateAppStatusMessage (js ''OFFLINE'') (js ''offline'') s)"

definition saveTextLocally :: "env \<Rightarrow> jsstring \<Rightarrow> relay_app \<Rightarrow> relay_app" where
  "saveTextLocally env txt s =
     (let pendingMemos = getPending s;
          pendingMemos' =
            pendingMemos @ [\<lparr>memo_text = txt, memo_timestamp = toISOString (new_Date env s)\<rparr>]
      in setItem pending_memos pendingMemos' s)"

definition checkOfflineUnsavedMemos :: "relay_app \<Rightarrow> relay_app" where
  "checkOfflineUnsavedMemos s =
     (let pendingMemos = getPending s
      in if length pendingMemos > 0
         then emit (ConsoleLog (log_unsent_prefix @ String_nat (length pendingMemos)
                                 @ log_unsent_suffix)) s
         else s)"

text \<open>
  \<open>sendMemoToSheet\<close>: one POST in the mode \<open>no-cors\<close>. The response cannot be read;
  the call fails exactly when \<open>fetch\<close> rejects.
\<close>

definition sheetRequest :: "jsstring \<Rightarrow> jsstring \<Rightarrow> jsstring \<Rightarrow> request" where
  "sheetRequest gasUrl content timestamp =
     Fetch gasUrl (js ''POST'') (js ''no-cors'') (js ''application/json'')
       (js ''{\"text\":'' @ JSON_stringify_string content @ js '',\"timestamp\":''
        @ JSON_stringify_string timestamp @ js ''}'')"

definition sendMemoToSheet :: "env \<Rightarrow> jsstring \<Rightarrow> relay_app \<Rightarrow> (js_error + unit) \<times> relay_app" where
  "sendMemoToSheet env content s =
     (let gasUrl = GAS_URL;
          timestamp = toLocaleString (new_Date env s);
          req = sheetRequest gasUrl content timestamp
      in case fetch_outcome env (length (trace s)) of
           Inl err \<Rightarrow> (Inl err, emit (Net req False) s)
         | Inr u \<Rightarrow> (Inr (), emit (Net req True) s))"

definition handleSaveFailure :: "env \<Rightarrow> jsstring \<Rightarrow> js_error \<Rightarrow> relay_app \<Rightarrow> relay_app" where
  "handleSaveFailure env txt err s =
     (let s1 = saveTextLocally env txt s;
          errorMessage = (if truthy (message err) then the (message err) else stringified err);
          s2 = emit (Alert (msg_save_failed_notice @ errorMessage)) s1
      in updateAppStatusMessage msg_kept_locally (js ''offline'') s2)"

text \<open>The loop of \<open>syncOfflineMemosToSheet\<close>: the first call that fails ends it.\<close>

fun sendPendingMemos :: "env \<Rightarrow> PendingMemo list \<Rightarrow> relay_app \<Rightarrow> (js_error + unit) \<times> relay_app" where
  "sendPendingMemos env [] s = (Inr (), s)"
| "sendPendingMemos env (memo # rest) s =
     (case sendMemoToSheet env (offline_marker @ memo_text memo) s of
        (Inl err, s') \<Rightarrow> (Inl err, s')
      | (Inr u, s') \<Rightarrow> sendPendingMemos env rest s')"

definition syncOfflineMemosToSheet :: "env \<Rightarrow> relay_app \<Rightarrow> relay_app" where
  "syncOfflineMemosToSheet env s =
     (if \<not> appState_isOnline s then s
      else
        let pendingMemos = getPending s
        in if length pendingMemos = 0 then s
           else
             let s1 = updateAppStatusMessage msg_syncing (js ''syncing'') s
             in case sendPendingMemos env pendingMemos s1 of
                  (Inr u, s2) \<Rightarrow>
                    setTimeout (UpdateStatusLater (js ''ONLINE'') (js ''online'')) 2000
                      (updateAppStatusMessage msg_synced (js ''online'')
                         (removeItem pending_memos s2))
                | (Inl err, s2) \<Rightarrow>
                    updateAppStatusMessage msg_sync_failed (js ''offline'')
                      (emit (ConsoleError log_sync_failed err) s2))"

definition window_load :: "env \<Rightarrow> relay_app \<Rightarrow> relay_app" where
  "window_load env s =
     (let s1 = initializeDateDisplay env s;
          s2 = updateOnlineStatusDisplay env s1;
          s3 = checkOfflineUnsavedMemos s2
      in if appState_isOnline s3 then syncOfflineMemosToSheet env s3 else s3)"

definition voiceRecognizer_onstart :: "relay_app \<Rightarrow> relay_app" where
  "voiceRecognizer_onstart s =
     updateAppStatusMessage msg_listening (js ''syncing'')
       (s\<lparr>appState_isListening := True, micBtn_listening := True\<rparr>)"

definition voiceRecognizer_onend :: "relay_app \<Rightarrow> relay_app" where
  "voiceRecognizer_onend s =
     (let s1 = s\<lparr>appState_isListening := False, micBtn_listening := False\<rparr>
      in if appState_isOnline s1
         then updateAppStatusMessage (js ''ONLINE'') (js ''online'') s1
         else updateAppStatusMessage (js ''OFFLINE'') (js ''offline'') s1)"

text \<open>
  The loop of both \<open>onresult\<close> handlers:
  \<open>for (let i = event.resultIndex; i < event.results.length; ++i)\<close>.
\<close>

function finalTranscript_from :: "SpeechRecognitionEvent \<Rightarrow> nat \<Rightarrow> jsstring \<Rightarrow> jsstring" where
  "finalTranscript_from event i acc =
     (if i < length (results event)
      then finalTranscript_from event (Suc i)
             (if isFinal (results event ! i) then acc @ transcript0 (results event ! i) else acc)
      else acc)"
  by pat_completeness auto
termination
  by (relation "measure (\<lambda>(event, i, acc). length (results event) - i)") auto

declare finalTranscript_from.simps [simp del]

definition voiceRecognizer_onresult :: "SpeechRecognitionEvent \<Rightarrow> relay_app \<Rightarrow> relay_app" where
  "voiceRecognizer_onresult event s =
     (let recognizedText = finalTranscript_from event (resultIndex event) []
      in if recognizedText \<noteq> [] then
           let separator = (if length (memoText_value s) > 0 then js ''\<newline>'' else [])
           in s\<lparr>memoText_value := memoText_value s @ separator @ recognizedText,
                saveBtn_disabled := False\<rparr>
         else s)"

definition domElements_micBtn_onclick :: "relay_app \<Rightarrow> relay_app" where
  "domElements_micBtn_onclick s =
     (if appState_isListening s then emit RecognitionStopCall s else emit RecognitionStartCall s)"

definition memoText_oninput :: "relay_app \<Rightarrow> relay_app" where
  "memoText_oninput s =
     (let textContent = trim (memoText_value s)
      in s\<lparr>saveBtn_disabled := (length textContent = 0)\<rparr>)"

definition domElements_saveBtn_onclick :: "env \<Rightarrow> relay_app \<Rightarrow> relay_app" where
  "domElements_saveBtn_onclick env s =
     (let textToSave = trim (memoText_value s)
      in if textToSave = [] then s
         else
           let s1 = updateAppStatusMessage msg_saving (js ''syncing'') s;
               s2 = s1\<lparr>saveBtn_disabled := True\<rparr>
           in if appState_isOnline s2 then
                (case sendMemoToSheet env textToSave s2 of
                   (Inr u, s3) \<Rightarrow>
                     setTimeout (UpdateStatusLater (js ''ONLINE'') (js ''online'')) 2000
                       (updateAppStatusMessage msg_saved (js ''online'')
                          (s3\<lparr>memoText_value := []\<rparr>))
                 | (Inl err, s3) \<Rightarrow>
                     handleSaveFailure env textToSave err
                       (emit (ConsoleError log_save_failed err) s3))
              else
                setTimeout (UpdateStatusLater (js ''OFFLINE'') (js ''offline'')) 2000
                  (updateAppStatusMessage msg_saved_locally (js ''offline'')
                     ((saveTextLocally env textToSave s2)\<lparr>memoText_value := []\<rparr>)))"

definition window_online :: "env \<Rightarrow> relay_app \<Rightarrow> relay_app" where
  "window_online env s =
     syncOfflineMemosToSheet env
       (updateAppStatusMessage (js ''ONLINE'') (js ''online'') (s\<lparr>appState_isOnline := True\<rparr>))"

definition window_offline :: "relay_app \<Rightarrow> relay_app" where
  "window_offline s =
     updateAppStatusMessage (js ''OFFLINE'') (js ''offline'') (s\<lparr>appState_isOnline := False\<rparr>)"

text \<open>
  The top level of the relay script: \<open>appState\<close> is created, and without a speech
  recogniser the microphone button is hidden and a notice is shown.
\<close>

definition relay_script :: "env \<Rightarrow> relay_app \<Rightarrow> relay_app" where
  "relay_script env s =
     (let s1 = s\<lparr>appState_isListening := False,
                  appState_isOnline := navigator_onLine env (length (trace s))\<rparr>
      in if SpeechRecognition env then s1
         else emit (Alert msg_unsupported)
                ((emit (ConsoleWarn warn_unsupported) s1)\<lparr>micBtn_display_none := True\<rparr>))"

text \<open>
  The events of the page. A click on a disabled button is not delivered, nor one on a
  button that is hidden or absent; the recogniser's events come only where there is a
  recogniser; a timer runs its callback once. The last three events exist in the drive
  variant only.
\<close>

datatype page_event =
    Load
  | RecognitionStart
  | RecognitionEnd
  | RecognitionResult SpeechRecognitionEvent
  | MicClick
  | EditorInput jsstring
  | SaveClick
  | Online
  | Offline
  | TimerFires nat
  | GapiClientLoaded
  | SignInClick
  | TokenResponse "js_error option"

text \<open>The two events that bring new text into the editor.\<close>

fun isEditorEvent :: "page_event \<Rightarrow> bool" where
  "isEditorEvent (EditorInput v) = True"
| "isEditorEvent (RecognitionResult event) = True"
| "isEditorEvent e = False"

fun run_timer :: "timer_action \<Rightarrow> relay_app \<Rightarrow> relay_app" where
  "run_timer (UpdateStatusLater txt dotType) s = updateAppStatusMessage txt dotType s"
| "run_timer InitGisLater s = s"

fun relay_step :: "env \<Rightarrow> page_event \<Rightarrow> relay_app \<Rightarrow> relay_app" where
  "relay_step env Load s = window_load env s"
| "relay_step env RecognitionStart s =
     (if SpeechRecognition env then voiceRecognizer_onstart s else s)"
| "relay_step env RecognitionEnd s =
     (if SpeechRecognition env then voiceRecognizer_onend s else s)"
| "relay_step env (RecognitionResult event) s =
     (if SpeechRecognition env then voiceRecognizer_onresult event s else s)"
| "relay_step env MicClick s =
     (if SpeechRecognition env \<and> \<not> micBtn_display_none s
      then domElements_micBtn_onclick s else s)"
| "relay_step env (EditorInput v) s = memoText_oninput (s\<lparr>memoText_value := v\<rparr>)"
| "relay_step env SaveClick s =
     (if saveBtn_disabled s then s else domElements_saveBtn_onclick env s)"
| "relay_step env Online s = window_online env s"
| "relay_step env Offline s = window_offline s"
| "relay_step env (TimerFires i) s =
     (if i < length (timers s)
      then run_timer (fst (timers s ! i))
             (s\<lparr>timers := take i (timers s) @ drop (Suc i) (timers s)\<rparr>)
      else s)"
| "relay_step env GapiClientLoaded s = s"
| "relay_step env SignInClick s = s"
| "relay_step env (TokenResponse resp) s = s"

section \<open>The drive variant (one Markdown document per day)\<close>

record drive_app = page +
  STATE_isListening :: bool
  STATE_isOnline :: bool
  STATE_isAuthenticated :: bool
  STATE_tokenClient :: bool
  STATE_gapiInited :: bool
  STATE_gisInited :: bool
  tokenClient_callback :: bool
  authContainer_button :: bool

definition msg_save_failed :: jsstring where
  "msg_save_failed =
     [0x4FDD, 0x5B58, 0x306B, 0x5931, 0x6557, 0x3057, 0x307E, 0x3057, 0x305F, 0x3A, 0x20]"

definition msg_no_speech :: jsstring where
  "msg_no_speech =
     [0x3053, 0x306E, 0x30D6, 0x30E9, 0x30A6, 0x30B6, 0x306F, 0x97F3, 0x58F0, 0x5165, 0x529B,
      0x3092, 0x30B5, 0x30DD, 0x30FC, 0x30C8, 0x3057, 0x3066, 0x3044, 0x307E, 0x305B, 0x3093,
      0x3002, 0x43, 0x68, 0x72, 0x6F, 0x6D, 0x65, 0x3092, 0x4F7F, 0x7528, 0x3057, 0x3066,
      0x304F, 0x3060, 0x3055, 0x3044, 0x3002]"

definition updateStatus :: "jsstring \<Rightarrow> jsstring \<Rightarrow> drive_app \<Rightarrow> drive_app" where
  "updateStatus txt type s =
     s\<lparr>statusText_textContent := txt, statusDot_className := js ''status-dot '' @ type\<rparr>"

definition initDateDisplay :: "env \<Rightarrow> drive_app \<Rightarrow> drive_app" where
  "initDateDisplay env s = s\<lparr>dateDisplay_textContent := toLocaleDateString_long (new_Date env s)\<rparr>"

definition checkOnlineStatus :: "env \<Rightarrow> drive_app \<Rightarrow> drive_app" where
  "checkOnlineStatus env s =
     (if navigator_onLine env (length (trace s))
      then updateStatus (js ''ONLINE'') (js ''online'') s
      else updateStatus (js ''OFFLINE'') (js ''offline'') s)"

definition saveToLocal :: "env \<Rightarrow> jsstring \<Rightarrow> drive_app \<Rightarrow> drive_app" where
  "saveToLocal env txt s =
     (let pending = getPending s;
          pending' = pending @ [\<lparr>memo_text = txt, memo_timestamp = toISOString (new_Date env s)\<rparr>]
      in setItem pending_memos pending' s)"

definition loadOfflineData :: "drive_app \<Rightarrow> drive_app" where
  "loadOfflineData s =
     (let pending = getPending s
      in if length pending > 0
         then emit (ConsoleLog (String_nat (length pending) @ js '' unsaved memos found.'')) s
         else s)"

definition getFileName :: "jsdate \<Rightarrow> jsstring" where
  "getFileName now =
     (let y = getFullYear now;
          m = padStart 2 0x30 (String_nat (getMonth now + 1));
          d = padStart 2 0x30 (String_nat (getDate now))
      in String_int y @ js ''-'' @ m @ js ''-'' @ d @ js ''.md'')"

text \<open>The two local values of \<open>saveToDrive\<close> that make the document body.\<close>

definition newEntry :: "jsstring \<Rightarrow> jsstring \<Rightarrow> jsstring" where
  "newEntry time content = js ''\<newline>## '' @ time @ js ''\<newline>'' @ content @ js ''\<newline>''"

definition finalContent :: "jsstring \<Rightarrow> jsstring \<Rightarrow> jsstring \<Rightarrow> jsstring" where
  "finalContent currentContent time content = trim (currentContent @ newEntry time content)"

definition multipartRequestBody :: "jsstring \<Rightarrow> jsstring \<Rightarrow> jsstring" where
  "multipartRequestBody metadata content =
     js ''--foo_bar_baz\<newline>Content-Type: application/json; charset=UTF-8\<newline>\<newline>''
     @ metadata
     @ js ''\<newline>--foo_bar_baz\<newline>Content-Type: text/markdown\<newline>\<newline>''
     @ content
     @ js ''\<newline>--foo_bar_baz--''"

definition updateMetadata :: "jsstring \<Rightarrow> jsstring" where
  "updateMetadata fileName =
     js ''{\"name\":'' @ JSON_stringify_string fileName
     @ js '',\"mimeType\":\"text/markdown\"}''"

definition createMetadata :: "jsstring \<Rightarrow> jsstring \<Rightarrow> jsstring" where
  "createMetadata fileName folderId =
     js ''{\"name\":'' @ JSON_stringify_string fileName
     @ js '',\"mimeType\":\"text/markdown\",\"parents\":['' @ JSON_stringify_string folderId
     @ js '']}''"

definition patchRequest :: "jsstring \<Rightarrow> jsstring \<Rightarrow> jsstring \<Rightarrow> request" where
  "patchRequest fileId fileName body =
     ClientRequest (js ''/upload/drive/v3/files/'' @ fileId) (js ''PATCH'') (js ''multipart'')
       (js ''multipart/related; boundary=foo_bar_baz'')
       (multipartRequestBody (updateMetadata fileName) body)"

definition postRequest :: "jsstring \<Rightarrow> jsstring \<Rightarrow> jsstring \<Rightarrow> request" where
  "postRequest folderId fileName body =
     ClientRequest (js ''/upload/drive/v3/files'') (js ''POST'') (js ''multipart'')
       (js ''multipart/related; boundary=foo_bar_baz'')
       (multipartRequestBody (createMetadata fileName folderId) body)"

definition listRequest :: "jsstring \<Rightarrow> jsstring \<Rightarrow> request" where
  "listRequest fileName folderId =
     FilesList (js ''name = '' @ [0x27] @ fileName @ [0x27] @ js '' and '' @ [0x27] @ folderId
                @ [0x27] @ js '' in parents and trashed = false'')
       (js ''files(id, name)'') (js ''drive'')"

text \<open>
  Step 2 of \<open>saveToDrive\<close> and the upload: \<open>fileId\<close> is \<open>None\<close> where the source has
  \<open>null\<close>. The source decides with \<open>if (fileId)\<close>: the document is updated when the id
  is a non-empty string, and a document is created when the id is \<open>null\<close> or empty.
\<close>

definition writeRequest :: "jsstring option \<Rightarrow> jsstring \<Rightarrow> jsstring \<Rightarrow> jsstring \<Rightarrow> request" where
  "writeRequest fileId folderId fileName body =
     (if truthy fileId then patchRequest (the fileId) fileName body
      else postRequest folderId fileName body)"

definition saveToDrive_write ::
  "env \<Rightarrow> jsstring \<Rightarrow> jsstring \<Rightarrow> jsstring option \<Rightarrow> jsstring \<Rightarrow> jsstring \<Rightarrow> drive_app
   \<Rightarrow> (js_error + unit) \<times> drive_app" where
  "saveToDrive_write env fileName folderId fileId currentContent content s =
     (let time = toLocaleTimeString (new_Date env s);
          body = finalContent currentContent time content;
          req = writeRequest fileId folderId fileName body
      in case client_request_outcome env (length (trace s)) of
           Inl err \<Rightarrow> (Inl err, emit (Net req False) s)
         | Inr u \<Rightarrow> (Inr (), emit (Net req True) s))"

definition saveToDrive :: "env \<Rightarrow> jsstring \<Rightarrow> drive_app \<Rightarrow> (js_error + unit) \<times> drive_app" where
  "saveToDrive env content s =
     (let fileName = getFileName (new_Date env s);
          folderId = FOLDER_ID (APP_CONFIG env);
          listReq = listRequest fileName folderId
      in case files_list_outcome env (length (trace s)) of
           Inl err \<Rightarrow>
             (Inl err, emit (ConsoleError (js ''Search failed'') err) (emit (Net listReq False) s))
         | Inr files \<Rightarrow>
             let s1 = emit (Net listReq True) s
             in (case files of
                   [] \<Rightarrow> saveToDrive_write env fileName folderId None [] content s1
                 | f # fs \<Rightarrow>
                     let fileId = file_id f;
                         getReq = FilesGet fileId (js ''media'')
                     in (case files_get_outcome env (length (trace s1)) of
                           Inl err \<Rightarrow>
                             (Inl err, emit (ConsoleError (js ''Search failed'') err)
                                         (emit (Net getReq False) s1))
                         | Inr currentContent \<Rightarrow>
                             saveToDrive_write env fileName folderId (Some fileId)
                               currentContent content (emit (Net getReq True) s1))))"

definition combinedText :: "PendingMemo list \<Rightarrow> jsstring" where
  "combinedText pending =
     foldl (\<lambda>acc item. acc @ js ''\<newline>(Synced from offline)\<newline>'' @ memo_text item
                          @ js ''\<newline>'') [] pending"

definition syncPendingData :: "env \<Rightarrow> drive_app \<Rightarrow> drive_app" where
  "syncPendingData env s =
     (if \<not> STATE_isAuthenticated s \<or> \<not> STATE_isOnline s then s
      else
        let pending = getPending s
        in if length pending = 0 then s
           else
             let s1 = updateStatus (js ''Syncing...'') (js ''syncing'') s
             in case saveToDrive env (combinedText pending) s1 of
                  (Inr u, s2) \<Rightarrow>
                    setTimeout (UpdateStatusLater (js ''ONLINE'') (js ''online'')) 2000
                      (updateStatus (js ''Synced!'') (js ''online'') (removeItem pending_memos s2))
                | (Inl err, s2) \<Rightarrow>
                    updateStatus (js ''Sync Failed'') (js ''offline'')
                      (emit (ConsoleError (js ''Sync failed'') err) s2))"

definition renderAuthButton :: "env \<Rightarrow> drive_app \<Rightarrow> drive_app" where
  "renderAuthButton env s =
     (if getToken env (length (trace s))
      then updateStatus (js ''ONLINE (AUTHED)'') (js ''online'') (s\<lparr>STATE_isAuthenticated := True\<rparr>)
      else s\<lparr>authContainer_button := True\<rparr>)"

definition maybeEnableAuth :: "env \<Rightarrow> drive_app \<Rightarrow> drive_app" where
  "maybeEnableAuth env s =
     (if STATE_gapiInited s \<and> STATE_gisInited s then renderAuthButton env s else s)"

text \<open>
  \<open>initGapi\<close> awaits the initialisation of the API client; when that rejects, nothing
  catches it. \<open>initGis\<close> fails in the same way when the identity script has not loaded.
\<close>

definition initGapi :: "env \<Rightarrow> drive_app \<Rightarrow> drive_app" where
  "initGapi env s =
     (let req = ClientInit (API_KEY (APP_CONFIG env)) (DISCOVERY_DOC (APP_CONFIG env))
      in case client_init_outcome env (length (trace s)) of
           Inl err \<Rightarrow> emit (Uncaught err) (emit (Net req False) s)
         | Inr u \<Rightarrow> maybeEnableAuth env ((emit (Net req True) s)\<lparr>STATE_gapiInited := True\<rparr>))"

definition ReferenceError_google :: js_error where
  "ReferenceError_google =
     \<lparr>result_error_message = None, message = Some (js ''google is not defined''),
      stringified = js ''{}''\<rparr>"

definition initGis :: "env \<Rightarrow> drive_app \<Rightarrow> drive_app" where
  "initGis env s =
     (if window_google env (length (trace s))
      then maybeEnableAuth env (s\<lparr>STATE_tokenClient := True, STATE_gisInited := True\<rparr>)
      else emit (Uncaught ReferenceError_google) s)"

definition handleAuthClick :: "env \<Rightarrow> drive_app \<Rightarrow> drive_app" where
  "handleAuthClick env s =
     (let s1 = s\<lparr>tokenClient_callback := True\<rparr>
      in if \<not> getToken env (length (trace s1))
         then emit (RequestAccessToken (js ''consent'')) s1
         else emit (RequestAccessToken []) s1)"

definition tokenClient_callback_run :: "env \<Rightarrow> js_error option \<Rightarrow> drive_app \<Rightarrow> drive_app" where
  "tokenClient_callback_run env resp s =
     (case resp of
        Some err \<Rightarrow> emit (Uncaught err) s
      | None \<Rightarrow>
          syncPendingData env
            (updateStatus (js ''ONLINE (AUTHED)'') (js ''online'')
               (s\<lparr>STATE_isAuthenticated := True, authContainer_button := False\<rparr>)))"

definition window_onload :: "env \<Rightarrow> drive_app \<Rightarrow> drive_app" where
  "window_onload env s =
     emit (GapiLoad (js ''client'')) (loadOfflineData (checkOnlineStatus env (initDateDisplay env s)))"

definition recognition_onstart :: "drive_app \<Rightarrow> drive_app" where
  "recognition_onstart s =
     updateStatus (js ''Listening...'') (js ''syncing'')
       (s\<lparr>STATE_isListening := True, micBtn_listening := True\<rparr>)"

definition recognition_onend :: "drive_app \<Rightarrow> drive_app" where
  "recognition_onend s =
     (let s1 = s\<lparr>STATE_isListening := False, micBtn_listening := False\<rparr>
      in if STATE_isOnline s1
         then updateStatus (js ''ONLINE'') (js ''online'') s1
         else updateStatus (js ''OFFLINE'') (js ''offline'') s1)"

definition recognition_onresult :: "SpeechRecognitionEvent \<Rightarrow> drive_app \<Rightarrow> drive_app" where
  "recognition_onresult event s =
     (let finalTranscript = finalTranscript_from event (resultIndex event) []
      in if finalTranscript \<noteq> [] then
           let separator = (if length (memoText_value s) > 0 then js ''\<newline>'' else [])
           in s\<lparr>memoText_value := memoText_value s @ separator @ finalTranscript,
                saveBtn_disabled := False\<rparr>
         else s)"

definition els_micBtn_onclick :: "drive_app \<Rightarrow> drive_app" where
  "els_micBtn_onclick s =
     (if STATE_isListening s then emit RecognitionStopCall s else emit RecognitionStartCall s)"

definition els_memoText_oninput :: "drive_app \<Rightarrow> drive_app" where
  "els_memoText_oninput s = s\<lparr>saveBtn_disabled := (length (trim (memoText_value s)) = 0)\<rparr>"

definition errMsg :: "js_error \<Rightarrow> jsstring" where
  "errMsg err =
     (if truthy (result_error_message err) then the (result_error_message err)
      else if truthy (message err) then the (message err)
      else stringified err)"

definition els_saveBtn_onclick :: "env \<Rightarrow> drive_app \<Rightarrow> drive_app" where
  "els_saveBtn_onclick env s =
     (let txt = trim (memoText_value s)
      in if txt = [] then s
         else
           let s1 = updateStatus (js ''Saving...'') (js ''syncing'') s;
               s2 = s1\<lparr>saveBtn_disabled := True\<rparr>
           in if STATE_isOnline s2 \<and> STATE_isAuthenticated s2 then
                (case saveToDrive env txt s2 of
                   (Inr u, s3) \<Rightarrow>
                     setTimeout (UpdateStatusLater (js ''ONLINE'') (js ''online'')) 2000
                       (updateStatus (js ''Saved!'') (js ''online'') (s3\<lparr>memoText_value := []\<rparr>))
                 | (Inl err, s3) \<Rightarrow>
                     let s4 = emit (ConsoleError (js ''Save failed'') err) s3;
                         s5 = saveToLocal env txt s4;
                         s6 = emit (Alert (msg_save_failed @ errMsg err)) s5
                     in updateStatus (js ''Saved Locally (Sync later)'') (js ''offline'') s6)
              else
                setTimeout (UpdateStatusLater (js ''OFFLINE'') (js ''offline'')) 2000
                  (updateStatus (js ''Saved Locally'') (js ''offline'')
                     ((saveToLocal env txt s2)\<lparr>memoText_value := []\<rparr>)))"

definition drive_online :: "env \<Rightarrow> drive_app \<Rightarrow> drive_app" where
  "drive_online env s =
     syncPendingData env
       (updateStatus (js ''ONLINE'') (js ''online'') (s\<lparr>STATE_isOnline := True\<rparr>))"

definition drive_offline :: "drive_app \<Rightarrow> drive_app" where
  "drive_offline s = updateStatus (js ''OFFLINE'') (js ''offline'') (s\<lparr>STATE_isOnline := False\<rparr>)"

text \<open>
  The top level of the drive script: \<open>STATE\<close> is created, the identity client is set up
  at once or a second later, and without a speech recogniser the microphone button is
  hidden and a notice is shown.
\<close>

definition drive_script :: "env \<Rightarrow> drive_app \<Rightarrow> drive_app" where
  "drive_script env s =
     (let s1 = s\<lparr>STATE_isListening := False,
                  STATE_isOnline := navigator_onLine env (length (trace s)),
                  STATE_isAuthenticated := False, STATE_tokenClient := False,
                  STATE_gapiInited := False, STATE_gisInited := False\<rparr>;
          s2 = (if window_google env (length (trace s1)) then initGis env s1
                else setTimeout InitGisLater 1000 s1)
      in if SpeechRecognition env then s2
         else emit (Alert msg_no_speech)
                ((emit (ConsoleLog (js ''Web Speech API not supported'')) s2)
                   \<lparr>micBtn_display_none := True\<rparr>))"

fun drive_run_timer :: "env \<Rightarrow> timer_action \<Rightarrow> drive_app \<Rightarrow> drive_app" where
  "drive_run_timer env (UpdateStatusLater txt type) s = updateStatus txt type s"
| "drive_run_timer env InitGisLater s = initGis env s"

fun drive_step :: "env \<Rightarrow> page_event \<Rightarrow> drive_app \<Rightarrow> drive_app" where
  "drive_step env Load s = window_onload env s"
| "drive_step env RecognitionStart s =
     (if SpeechRecognition env then recognition_onstart s else s)"
| "drive_step env RecognitionEnd s =
     (if SpeechRecognition env then recognition_onend s else s)"
| "drive_step env (RecognitionResult event) s =
     (if SpeechRecognition env then recognition_onresult event s else s)"
| "drive_step env MicClick s =
     (if SpeechRecognition env \<and> \<not> micBtn_display_none s then els_micBtn_onclick s else s)"
| "drive_step env (EditorInput v) s = els_memoText_oninput (s\<lparr>memoText_value := v\<rparr>)"
| "drive_step env SaveClick s =
     (if saveBtn_disabled s then s else els_saveBtn_onclick env s)"
| "drive_step env Online s = drive_online env s"
| "drive_step env Offline s = drive_offline s"
| "drive_step env (TimerFires i) s =
     (if i < length (timers s)
      then drive_run_timer env (fst (timers s ! i))
             (s\<lparr>timers := take i (timers s) @ drop (Suc i) (timers s)\<rparr>)
      else s)"
| "drive_step env GapiClientLoaded s = initGapi env s"
| "drive_step env SignInClick s =
     (if authContainer_button s then handleAuthClick env s else s)"
| "drive_step env (TokenResponse resp) s =
     (if tokenClient_callback s then tokenClient_callback_run env resp s else s)"

text \<open>What the handlers other than those of the editor leave alone.\<close>

definition same_editor :: "'a page_scheme \<Rightarrow> 'b page_scheme \<Rightarrow> bool" where
  "same_editor s s' \<longleftrightarrow>
     saveBtn_disabled s' = saveBtn_disabled s \<and> memoText_value s' = memoText_value s"

section \<open>Concrete pages and environments\<close>

text \<open>20 February 2026, 22:54 in Japan, which is 13:54:07.042 in UTC.\<close>

definition example_date :: jsdate where
  "example_date =
     \<lparr>getFullYear = 2026, getMonth = 1, getDate = 20, getHours = 22, getMinutes = 54,
      getUTCFullYear = 2026, getUTCMonth = 1, getUTCDate = 20, getUTCHours = 13,
      getUTCMinutes = 54, getUTCSeconds = 7, getUTCMilliseconds = 42,
      toLocaleDateString_long = [0x32, 0x30, 0x32, 0x36, 0x5E74, 0x32, 0x6708, 0x32, 0x30,
                                 0x65E5, 0x28, 0x91D1, 0x29]\<rparr>"

definition example_config :: drive_config where
  "example_config =
     \<lparr>API_KEY = js ''key'', DISCOVERY_DOC = js ''https://www.googleapis.com/discovery/v1/apis/drive/v3/rest'',
      CLIENT_ID = js ''client'', SCOPES = js ''https://www.googleapis.com/auth/drive.file'',
      FOLDER_ID = js ''folder1''\<rparr>"

definition network_error :: js_error where
  "network_error =
     \<lparr>result_error_message = None, message = Some (js ''Failed to fetch''),
      stringified = js ''{}''\<rparr>"

definition todays_file :: drive_file where
  "todays_file = \<lparr>file_id = js ''f1'', file_name = js ''2026-02-20.md''\<rparr>"

text \<open>An environment in which every call succeeds and today's document does not exist yet.\<close>

definition good_env :: env where
  "good_env =
     \<lparr>clock = (\<lambda>n. example_date), navigator_onLine = (\<lambda>n. True), SpeechRecognition = True,
      fetch_outcome = (\<lambda>n. Inr ()), files_list_outcome = (\<lambda>n. Inr []),
      files_get_outcome = (\<lambda>n. Inr []), client_request_outcome = (\<lambda>n. Inr ()),
      client_init_outcome = (\<lambda>n. Inr ()), getToken = (\<lambda>n. True), window_google = (\<lambda>n. True),
      APP_CONFIG = example_config\<rparr>"

text \<open>One in which today's document exists, with one entry.\<close>

definition found_env :: env where
  "found_env =
     good_env\<lparr>files_list_outcome := (\<lambda>n. Inr [todays_file]),
              files_get_outcome := (\<lambda>n. Inr (js ''## 09:00\<newline>first''))\<rparr>"

text \<open>One in which the search returns a document whose id is the empty string.\<close>

definition nameless_file :: drive_file where
  "nameless_file = \<lparr>file_id = [], file_name = js ''2026-02-20.md''\<rparr>"

definition empty_id_env :: env where
  "empty_id_env = found_env\<lparr>files_list_outcome := (\<lambda>n. Inr [nameless_file])\<rparr>"


text \<open>One in which every call to the network fails.\<close>

definition bad_env :: env where
  "bad_env =
     good_env\<lparr>fetch_outcome := (\<lambda>n. Inl network_error),
              files_list_outcome := (\<lambda>n. Inl network_error),
              files_get_outcome := (\<lambda>n. Inl network_error),
              client_request_outcome := (\<lambda>n. Inl network_error)\<rparr>"

text \<open>The note of the spec's example, a shopping list, with blanks around it.\<close>

definition shopping_list :: jsstring where
  "shopping_list = [0x8CB7, 0x3044, 0x7269, 0x30EA, 0x30B9, 0x30C8]"

definition memo1 :: PendingMemo where
  "memo1 = \<lparr>memo_text = js ''milk'', memo_timestamp = js ''2026-02-20T10:00:00.000Z''\<rparr>"

definition memo2 :: PendingMemo where
  "memo2 = \<lparr>memo_text = js ''eggs'', memo_timestamp = js ''2026-02-20T11:00:00.000Z''\<rparr>"

definition relay_page :: relay_app where
  "relay_page =
     \<lparr>statusText_textContent = js ''ONLINE'', statusDot_className = js ''status-dot online'',
      dateDisplay_textContent = [], memoText_value = js '' '' @ shopping_list @ js ''\<newline>'',
      micBtn_listening = False, micBtn_display_none = False, saveBtn_disabled = False,
      localStorage = Map.empty, timers = [], trace = [],
      appState_isListening = False, appState_isOnline = True\<rparr>"

definition drive_page :: drive_app where
  "drive_page =
     \<lparr>statusText_textContent = js ''ONLINE'', statusDot_className = js ''status-dot online'',
      dateDisplay_textContent = [], memoText_value = js '' '' @ shopping_list @ js ''\<newline>'',
      micBtn_listening = False, micBtn_display_none = False, saveBtn_disabled = False,
      localStorage = Map.empty, timers = [], trace = [],
      STATE_isListening = False, STATE_isOnline = True, STATE_isAuthenticated = True,
      STATE_tokenClient = True, STATE_gapiInited = True, STATE_gisInited = True,
      tokenClient_callback = True, authContainer_button = False\<rparr>"

text \<open>A batch with one interim and one final hypothesis of the same utterance.\<close>

definition example_batch :: SpeechRecognitionEvent where
  "example_batch =
     \<lparr>resultIndex = 0,
      results = [\<lparr>isFinal = False, transcript0 = js ''kaimo''\<rparr>,
                 \<lparr>isFinal = True, transcript0 = shopping_list\<rparr>]\<rparr>"

definition interim_batch :: SpeechRecognitionEvent where
  "interim_batch =
     \<lparr>resultIndex = 1,
      results = [\<lparr>isFinal = True, transcript0 = js ''old''\<rparr>,
                 \<lparr>isFinal = False, transcript0 = js ''kaimo''\<rparr>]\<rparr>"

text \<open>The two pages with two memos waiting in the queue.\<close>

definition relay_queued :: relay_app where
  "relay_queued = relay_page\<lparr>localStorage := [pending_memos \<mapsto> [memo1, memo2]]\<rparr>"

definition drive_queued :: drive_app where
  "drive_queued = drive_page\<lparr>localStorage := [pending_memos \<mapsto> [memo1, memo2]]\<rparr>"

section \<open>Numbers and dates as strings\<close>

lemma isDecimalDigit_digit:
  assumes "k < 10"
  shows "isDecimalDigit (digit k)"
proof -
  from assms have "k \<in> {0, 1, 2, 3, 4, 5, 6, 7, 8, 9}" by auto
  then show ?thesis by (auto simp add: isDecimalDigit_def digit_def)
qed

lemma String_nat_1: "n < 10 \<Longrightarrow> String_nat n = [digit n]"
  by (subst String_nat.simps) simp

lemma String_nat_2:
  assumes "10 \<le> n" "n < 100"
  shows "String_nat n = [digit (n div 10), digit (n mod 10)]"
proof -
  have "n div 10 < 10" using assms by simp
  then show ?thesis using assms by (subst String_nat.simps) (simp add: String_nat_1)
qed

lemma String_nat_3:
  assumes "100 \<le> n" "n < 1000"
  shows "String_nat n = [digit (n div 100), digit (n div 10 mod 10), digit (n mod 10)]"
proof -
  have "10 \<le> n div 10" "n div 10 < 100" using assms by simp_all
  then show ?thesis using assms
    by (subst String_nat.simps) (simp add: String_nat_2 div_mult2_eq[symmetric])
qed

lemma String_nat_4:
  assumes "1000 \<le> n" "n < 10000"
  shows "String_nat n =
           [digit (n div 1000), digit (n div 100 mod 10), digit (n div 10 mod 10), digit (n mod 10)]"
proof -
  have "100 \<le> n div 10" "n div 10 < 1000" using assms by simp_all
  then show ?thesis using assms
    by (subst String_nat.simps) (simp add: String_nat_3 div_mult2_eq[symmetric])
qed

lemma String_nat_5:
  assumes "10000 \<le> n" "n < 100000"
  shows "String_nat n =
           [digit (n div 10000), digit (n div 1000 mod 10), digit (n div 100 mod 10),
            digit (n div 10 mod 10), digit (n mod 10)]"
proof -
  have "1000 \<le> n div 10" "n div 10 < 10000" using assms by simp_all
  then show ?thesis using assms
    by (subst String_nat.simps) (simp add: String_nat_4 div_mult2_eq[symmetric])
qed

lemma String_nat_6:
  assumes "100000 \<le> n" "n < 1000000"
  shows "String_nat n =
           [digit (n div 100000), digit (n div 10000 mod 10), digit (n div 1000 mod 10),
            digit (n div 100 mod 10), digit (n div 10 mod 10), digit (n mod 10)]"
proof -
  have "10000 \<le> n div 10" "n div 10 < 100000" using assms by simp_all
  then show ?thesis using assms
    by (subst String_nat.simps) (simp add: String_nat_5 div_mult2_eq[symmetric])
qed

lemma digit_0: "digit 0 = 0x30"
  by (simp add: digit_def)

lemma replicate_small:
  "replicate 2 x = [x, x]" "replicate 3 x = [x, x, x]" "replicate 4 x = [x, x, x, x]"
  "replicate 5 x = [x, x, x, x, x]"
  by (simp_all add: eval_nat_numeral)

lemma pad2_digits: "n < 100 \<Longrightarrow> pad2 n = [digit (n div 10), digit (n mod 10)]"
  by (cases "n < 10")
     (simp_all add: pad2_def padStart_def String_nat_1 String_nat_2 digit_0)

lemma pad3_digits:
  assumes "n < 1000"
  shows "padStart 3 0x30 (String_nat n) =
           [digit (n div 100), digit (n div 10 mod 10), digit (n mod 10)]"
proof -
  consider "n < 10" | "10 \<le> n" "n < 100" | "100 \<le> n" "n < 1000"
    using assms by linarith
  then show ?thesis
    by cases (simp_all add: padStart_def String_nat_1 String_nat_2 String_nat_3 digit_0
        replicate_small)
qed

lemma pad4_digits:
  assumes "n < 10000"
  shows "padStart 4 0x30 (String_nat n) =
     [digit (n div 1000), digit (n div 100 mod 10), digit (n div 10 mod 10), digit (n mod 10)]"
proof -
  consider "n < 10" | "10 \<le> n" "n < 100" | "100 \<le> n" "n < 1000" | "1000 \<le> n" "n < 10000"
    using assms by linarith
  then show ?thesis
    by cases (simp_all add: padStart_def String_nat_1 String_nat_2 String_nat_3 String_nat_4
        digit_0 replicate_small)
qed

lemma pad6_digits:
  assumes "n < 1000000"
  shows "padStart 6 0x30 (String_nat n) =
     [digit (n div 100000), digit (n div 10000 mod 10), digit (n div 1000 mod 10),
      digit (n div 100 mod 10), digit (n div 10 mod 10), digit (n mod 10)]"
proof -
  consider "n < 10" | "10 \<le> n" "n < 100" | "100 \<le> n" "n < 1000" | "1000 \<le> n" "n < 10000"
    | "10000 \<le> n" "n < 100000" | "100000 \<le> n" "n < 1000000"
    using assms by linarith
  then show ?thesis
    by cases (simp_all add: padStart_def String_nat_1 String_nat_2 String_nat_3 String_nat_4
        String_nat_5 String_nat_6 digit_0 replicate_small)
qed

lemma matches_literal:
  "p \<noteq> CHR ''0'' \<Longrightarrow> matches (p # ps) (of_char p # cs) = matches ps cs"
  by simp

lemma matches_pad2:
  assumes "n < 100"
  shows "matches (CHR ''0'' # CHR ''0'' # ps) (pad2 n @ cs) = matches ps cs"
proof -
  have "n div 10 < 10" using assms by simp
  then show ?thesis by (simp add: pad2_digits[OF assms] isDecimalDigit_digit)
qed

lemma matches_pad3:
  assumes "n < 1000"
  shows "matches (CHR ''0'' # CHR ''0'' # CHR ''0'' # ps) (padStart 3 0x30 (String_nat n) @ cs)
         = matches ps cs"
proof -
  have "n div 100 < 10" using assms by simp
  then show ?thesis by (simp add: pad3_digits[OF assms] isDecimalDigit_digit)
qed

lemma matches_pad4:
  assumes "n < 10000"
  shows "matches (CHR ''0'' # CHR ''0'' # CHR ''0'' # CHR ''0'' # ps)
           (padStart 4 0x30 (String_nat n) @ cs)
         = matches ps cs"
proof -
  have "n div 1000 < 10" using assms by simp
  then show ?thesis by (simp add: pad4_digits[OF assms] isDecimalDigit_digit)
qed

lemma matches_pad6:
  assumes "n < 1000000"
  shows "matches (CHR ''0'' # CHR ''0'' # CHR ''0'' # CHR ''0'' # CHR ''0'' # CHR ''0'' # ps)
           (padStart 6 0x30 (String_nat n) @ cs)
         = matches ps cs"
proof -
  have "n div 100000 < 10" using assms by simp
  then show ?thesis by (simp add: pad6_digits[OF assms] isDecimalDigit_digit)
qed



lemma toISOString_isISO8601:
  assumes "valid_utc d"
  shows "isISO8601 (toISOString d)"
proof -
  have f: "getUTCMonth d + 1 < 100" "getUTCDate d < 100" "getUTCHours d < 100"
    "getUTCMinutes d < 100" "getUTCSeconds d < 100" "getUTCMilliseconds d < 1000"
    using assms by (simp_all add: valid_utc_def)
  let ?t = "js ''-'' @ pad2 (getUTCMonth d + 1) @ js ''-'' @ pad2 (getUTCDate d) @ js ''T''
         @ pad2 (getUTCHours d) @ js '':'' @ pad2 (getUTCMinutes d) @ js '':''
         @ pad2 (getUTCSeconds d) @ js ''.'' @ padStart 3 0x30 (String_nat (getUTCMilliseconds d))
         @ js ''Z''"
  have tail: "matches ''-00-00T00:00:00.000Z'' ?t"
    using f by (simp add: js_def matches_pad2 matches_pad3)
  let ?y = "getUTCFullYear d"
  have y: "nat \<bar>?y\<bar> < 1000000" using assms unfolding valid_utc_def by linarith
  show ?thesis
  proof (cases "0 \<le> ?y \<and> ?y \<le> 9999")
    case True
    then have y4: "nat ?y < 10000" by linarith
    have "toISOString d = padStart 4 0x30 (String_nat (nat ?y)) @ ?t"
      using True by (simp add: toISOString_def Let_def)
    then have "matches ''0000-00-00T00:00:00.000Z'' (toISOString d)"
      using tail by (simp add: matches_pad4[OF y4])
    then show ?thesis by (simp add: isISO8601_def)
  next
    case False
    show ?thesis
    proof (cases "?y < 0")
      case True
      have "toISOString d = js ''-'' @ padStart 6 0x30 (String_nat (nat \<bar>?y\<bar>)) @ ?t"
        using True by (simp add: toISOString_def Let_def)
      then have "matches ''-000000-00-00T00:00:00.000Z'' (toISOString d)"
        using tail by (simp add: matches_pad6[OF y] js_def)
      then show ?thesis by (simp add: isISO8601_def)
    next
      case nonneg: False
      have "toISOString d = js ''+'' @ padStart 6 0x30 (String_nat (nat \<bar>?y\<bar>)) @ ?t"
        using False nonneg by (simp add: toISOString_def Let_def)
      then have "matches ''+000000-00-00T00:00:00.000Z'' (toISOString d)"
        using tail by (simp add: matches_pad6[OF y] js_def)
      then show ?thesis by (simp add: isISO8601_def)
    qed
  qed
qed


section \<open>Dictation\<close>

lemma finalTranscript_from_eq:
  "finalTranscript_from ev i acc =
     acc @ concat (map transcript0 (filter isFinal (drop i (results ev))))"
proof (induction ev i acc rule: finalTranscript_from.induct)
  case (1 event i acc)
  show ?case
  proof (cases "i < length (results event)")
    case True
    then have d: "drop i (results event) = results event ! i # drop (Suc i) (results event)"
      by (simp add: Cons_nth_drop_Suc)
    show ?thesis
      using True "1.IH"[OF True] by (subst finalTranscript_from.simps) (simp add: d)
  next
    case False
    then show ?thesis by (subst finalTranscript_from.simps) simp
  qed
qed

lemma recognition_onresult_eq:
  assumes "finalTranscript_from event (resultIndex event) [] = t"
  shows "recognition_onresult event d =
           (if t = [] then d
            else d\<lparr>memoText_value :=
                       memoText_value d @ (if memoText_value d = [] then [] else js ''\<newline>'') @ t,
                   saveBtn_disabled := False\<rparr>)"
  using assms by (simp add: recognition_onresult_def Let_def)

lemma voiceRecognizer_onresult_eq:
  assumes "finalTranscript_from event (resultIndex event) [] = t"
  shows "voiceRecognizer_onresult event r =
           (if t = [] then r
            else r\<lparr>memoText_value :=
                       memoText_value r @ (if memoText_value r = [] then [] else js ''\<newline>'') @ t,
                   saveBtn_disabled := False\<rparr>)"
  using assms by (simp add: voiceRecognizer_onresult_def Let_def)

text \<open>
  C7. A result batch gives the concatenation of the transcripts of its final results from
  \<open>resultIndex\<close> on, the interim ones left out. When that string is not empty, the editor
  becomes its old text, a newline exactly when the old text is not empty, and the string,
  once; and the save button is enabled. When it is empty the page is as it was. Both
  variants do this.
\<close>

theorem onresult_appends_final_transcripts:
  "(let t = concat (map transcript0 (filter isFinal (drop (resultIndex event) (results event))))
    in recognition_onresult event d =
         (if t = [] then d
          else d\<lparr>memoText_value :=
                     memoText_value d @ (if memoText_value d = [] then [] else js ''\<newline>'') @ t,
                 saveBtn_disabled := False\<rparr>)
       \<and> voiceRecognizer_onresult event r =
         (if t = [] then r
          else r\<lparr>memoText_value :=
                     memoText_value r @ (if memoText_value r = [] then [] else js ''\<newline>'') @ t,
                 saveBtn_disabled := False\<rparr>))"
  unfolding Let_def
  by (intro conjI recognition_onresult_eq voiceRecognizer_onresult_eq)
     (simp_all only: finalTranscript_from_eq append_Nil)

theorem onresult_appends_final_transcripts_witness:
  "memoText_value (recognition_onresult example_batch (drive_page\<lparr>saveBtn_disabled := True\<rparr>))
     = js '' '' @ shopping_list @ js ''\<newline>\<newline>'' @ shopping_list
   \<and> \<not> saveBtn_disabled (recognition_onresult example_batch (drive_page\<lparr>saveBtn_disabled := True\<rparr>))
   \<and> memoText_value (voiceRecognizer_onresult example_batch (relay_page\<lparr>memoText_value := []\<rparr>))
     = shopping_list"
  using onresult_appends_final_transcripts
          [of example_batch "drive_page\<lparr>saveBtn_disabled := True\<rparr>"
              "relay_page\<lparr>memoText_value := []\<rparr>"]
  by (simp add: example_batch_def drive_page_def relay_page_def shopping_list_def js_def Let_def)

text \<open>
  C10. When no result of the batch from \<open>resultIndex\<close> on is final, the handler of either
  variant leaves the whole page as it was: the editor, the save button and everything else.
\<close>

theorem onresult_all_interim_unchanged:
  assumes "\<forall>x \<in> set (drop (resultIndex event) (results event)). \<not> isFinal x"
  shows "recognition_onresult event d = d \<and> voiceRecognizer_onresult event r = r"
proof -
  have "filter isFinal (drop (resultIndex event) (results event)) = []"
    using assms by (simp add: filter_empty_conv)
  then show ?thesis
    by (simp add: recognition_onresult_def voiceRecognizer_onresult_def finalTranscript_from_eq)
qed

theorem onresult_all_interim_unchanged_witness:
  "filter isFinal (drop (resultIndex interim_batch) (results interim_batch)) = []
   \<and> recognition_onresult interim_batch drive_page = drive_page
   \<and> voiceRecognizer_onresult interim_batch relay_page = relay_page"
proof -
  have h: "\<forall>x \<in> set (drop (resultIndex interim_batch) (results interim_batch)). \<not> isFinal x"
    by (simp add: interim_batch_def)
  show ?thesis
    using h onresult_all_interim_unchanged [OF h, of drive_page relay_page] by simp
qed

section \<open>The adapters\<close>

lemma new_effects_append:
  "trace s' = trace s @ new \<Longrightarrow> new_effects s s' = new"
  by (simp add: new_effects_def)

lemma run_intro:
  "st = s\<lparr>trace := trace s @ new\<rparr> \<Longrightarrow> list_ex faulted new = b \<Longrightarrow>
   \<exists>new. st = s\<lparr>trace := trace s @ new\<rparr> \<and> list_ex faulted new = b"
  by blast

lemma sendMemoToSheet_ok:
  "fetch_outcome env (length (trace s)) = Inr u \<Longrightarrow>
   sendMemoToSheet env c s =
     (Inr (), s\<lparr>trace := trace s @ [Net (sheetRequest GAS_URL c (toLocaleString (new_Date env s))) True]\<rparr>)"
  by (simp add: sendMemoToSheet_def emit_def Let_def)

lemma sendMemoToSheet_fail:
  "fetch_outcome env (length (trace s)) = Inl e \<Longrightarrow>
   sendMemoToSheet env c s =
     (Inl e, s\<lparr>trace := trace s @ [Net (sheetRequest GAS_URL c (toLocaleString (new_Date env s))) False]\<rparr>)"
  by (simp add: sendMemoToSheet_def emit_def Let_def)

lemma sendPendingMemos_run:
  "\<exists>new. snd (sendPendingMemos env ms s) = s\<lparr>trace := trace s @ new\<rparr>
         \<and> list_ex faulted new = isl (fst (sendPendingMemos env ms s))"
proof (induction ms arbitrary: s)
  case Nil
  show ?case by (rule exI[of _ "[]"]) simp
next
  case (Cons memo rest)
  let ?c = "offline_marker @ memo_text memo"
  let ?x = "\<lambda>ok. Net (sheetRequest GAS_URL ?c (toLocaleString (new_Date env s))) ok"
  show ?case
  proof (cases "fetch_outcome env (length (trace s))")
    case (Inl e)
    show ?thesis
      by (rule exI[of _ "[?x False]"]) (simp add: sendMemoToSheet_fail[OF Inl])
  next
    case (Inr u)
    let ?s1 = "s\<lparr>trace := trace s @ [?x True]\<rparr>"
    from Cons.IH[of ?s1] obtain new where
      n: "snd (sendPendingMemos env rest ?s1) = ?s1\<lparr>trace := trace ?s1 @ new\<rparr>"
         "list_ex faulted new = isl (fst (sendPendingMemos env rest ?s1))"
      by blast
    show ?thesis
      using n by (intro exI[of _ "?x True # new"]) (simp add: sendMemoToSheet_ok[OF Inr])
  qed
qed

lemma syncOfflineMemosToSheet_storage:
  assumes "appState_isOnline r" and "getPending r \<noteq> []"
  shows "if list_ex faulted (new_effects r (syncOfflineMemosToSheet env r))
         then localStorage (syncOfflineMemosToSheet env r) = localStorage r
         else localStorage (syncOfflineMemosToSheet env r) = (localStorage r)(pending_memos := None)"
proof -
  let ?s1 = "updateAppStatusMessage msg_syncing (js ''syncing'') r"
  have p: "getPending ?s1 = getPending r" "trace ?s1 = trace r" "localStorage ?s1 = localStorage r"
    by (simp_all add: updateAppStatusMessage_def getPending_def)
  obtain res s2 where run: "sendPendingMemos env (getPending r) ?s1 = (res, s2)"
    by (cases "sendPendingMemos env (getPending r) ?s1")
  from sendPendingMemos_run[of env "getPending r" ?s1] run obtain new where
    s2: "s2 = ?s1\<lparr>trace := trace ?s1 @ new\<rparr>" and f: "list_ex faulted new = isl res"
    by auto
  have t2: "trace s2 = trace r @ new" and l2: "localStorage s2 = localStorage r"
    using s2 p by simp_all
  show ?thesis
  proof (cases res)
    case (Inl e)
    have eq: "syncOfflineMemosToSheet env r =
          updateAppStatusMessage msg_sync_failed (js ''offline'')
                      (emit (ConsoleError log_sync_failed e) s2)"
      using assms run Inl by (simp add: syncOfflineMemosToSheet_def Let_def)
    have "trace (syncOfflineMemosToSheet env r) = trace r @ (new @ [ConsoleError log_sync_failed e])"
      unfolding eq using t2 by (simp add: updateAppStatusMessage_def emit_def)
    from new_effects_append[OF this] f Inl l2 show ?thesis
      by (simp add: eq updateAppStatusMessage_def emit_def)
  next
    case (Inr u)
    have eq: "syncOfflineMemosToSheet env r =
         setTimeout (UpdateStatusLater (js ''ONLINE'') (js ''online'')) 2000
                      (updateAppStatusMessage msg_synced (js ''online'')
                         (removeItem pending_memos s2))"
      using assms run Inr by (simp add: syncOfflineMemosToSheet_def Let_def)
    have "trace (syncOfflineMemosToSheet env r) = trace r @ (new @ [RemoveItem pending_memos])"
      unfolding eq using t2 by (simp add: updateAppStatusMessage_def emit_def setTimeout_def removeItem_def)
    from new_effects_append[OF this] f Inr l2 show ?thesis
      by (simp add: eq updateAppStatusMessage_def emit_def setTimeout_def removeItem_def)
  qed
qed

lemma saveToDrive_write_run:
  "saveToDrive_write env fileName (FOLDER_ID (APP_CONFIG env)) fileId currentContent content s =
     (client_request_outcome env (length (trace s)),
      s\<lparr>trace := trace s @
          [Net (writeRequest fileId (FOLDER_ID (APP_CONFIG env)) fileName
                 (finalContent currentContent (toLocaleTimeString (new_Date env s)) content))
               (\<not> isl (client_request_outcome env (length (trace s))))]\<rparr>)"
  by (cases "client_request_outcome env (length (trace s))")
     (simp_all add: saveToDrive_write_def emit_def Let_def)

lemma saveToDrive_list_fails:
  assumes "files_list_outcome env (length (trace s)) = Inl e"
  shows "saveToDrive env content s =
     (Inl e, s\<lparr>trace := trace s @
         [Net (listRequest (getFileName (new_Date env s)) (FOLDER_ID (APP_CONFIG env))) False,
          ConsoleError (js ''Search failed'') e]\<rparr>)"
  using assms by (simp add: saveToDrive_def emit_def Let_def)

lemma saveToDrive_absent:
  assumes "files_list_outcome env (length (trace s)) = Inr []"
  shows "saveToDrive env content s =
     (client_request_outcome env (Suc (length (trace s))),
      s\<lparr>trace := trace s @
         [Net (listRequest (getFileName (new_Date env s)) (FOLDER_ID (APP_CONFIG env))) True,
          Net (writeRequest None (FOLDER_ID (APP_CONFIG env)) (getFileName (new_Date env s))
                 (finalContent [] (toLocaleTimeString (clock env (Suc (length (trace s))))) content))
              (\<not> isl (client_request_outcome env (Suc (length (trace s)))))]\<rparr>)"
  using assms by (simp add: saveToDrive_def saveToDrive_write_run emit_def Let_def new_Date_def)

lemma saveToDrive_get_fails:
  assumes "files_list_outcome env (length (trace s)) = Inr (f # fs)"
      and "files_get_outcome env (Suc (length (trace s))) = Inl e"
  shows "saveToDrive env content s =
     (Inl e, s\<lparr>trace := trace s @
         [Net (listRequest (getFileName (new_Date env s)) (FOLDER_ID (APP_CONFIG env))) True,
          Net (FilesGet (file_id f) (js ''media'')) False,
          ConsoleError (js ''Search failed'') e]\<rparr>)"
  using assms by (simp add: saveToDrive_def emit_def Let_def)

lemma saveToDrive_found:
  assumes "files_list_outcome env (length (trace s)) = Inr (f # fs)"
      and "files_get_outcome env (Suc (length (trace s))) = Inr currentContent"
  shows "saveToDrive env content s =
     (client_request_outcome env (Suc (Suc (length (trace s)))),
      s\<lparr>trace := trace s @
         [Net (listRequest (getFileName (new_Date env s)) (FOLDER_ID (APP_CONFIG env))) True,
          Net (FilesGet (file_id f) (js ''media'')) True,
          Net (writeRequest (Some (file_id f)) (FOLDER_ID (APP_CONFIG env)) (getFileName (new_Date env s))
                 (finalContent currentContent
                    (toLocaleTimeString (clock env (Suc (Suc (length (trace s)))))) content))
              (\<not> isl (client_request_outcome env (Suc (Suc (length (trace s))))))]\<rparr>)"
  using assms by (simp add: saveToDrive_def saveToDrive_write_run emit_def Let_def new_Date_def)


lemma saveToDrive_run:
  "\<exists>new. snd (saveToDrive env c s) = s\<lparr>trace := trace s @ new\<rparr>
         \<and> list_ex faulted new = isl (fst (saveToDrive env c s))"
proof (cases "files_list_outcome env (length (trace s))")
  case (Inl e)
  show ?thesis unfolding saveToDrive_list_fails[OF Inl] snd_conv fst_conv
    by (rule run_intro[OF refl]) simp
next
  case (Inr files)
  show ?thesis
  proof (cases files)
    case Nil
    with Inr have a: "files_list_outcome env (length (trace s)) = Inr []" by simp
    show ?thesis unfolding saveToDrive_absent[OF a] snd_conv fst_conv
      by (rule run_intro[OF refl]) simp
  next
    case (Cons f fs)
    with Inr have a: "files_list_outcome env (length (trace s)) = Inr (f # fs)" by simp
    show ?thesis
    proof (cases "files_get_outcome env (Suc (length (trace s)))")
      case (Inl e)
      show ?thesis unfolding saveToDrive_get_fails[OF a Inl] snd_conv fst_conv
        by (rule run_intro[OF refl]) simp
    next
      case (Inr cur)
      show ?thesis unfolding saveToDrive_found[OF a Inr] snd_conv fst_conv
        by (rule run_intro[OF refl]) simp
    qed
  qed
qed

lemma saveToDrive_same_trace:
  assumes t: "trace s2 = trace s"
  shows "fst (saveToDrive env c s2) = fst (saveToDrive env c s)
       \<and> new_effects s2 (snd (saveToDrive env c s2)) = new_effects s (snd (saveToDrive env c s))"
proof (cases "files_list_outcome env (length (trace s))")
  case (Inl e)
  from Inl t have b: "files_list_outcome env (length (trace s2)) = Inl e" by simp
  show ?thesis unfolding saveToDrive_list_fails[OF Inl] saveToDrive_list_fails[OF b]
    by (simp add: new_effects_def new_Date_def t)
next
  case (Inr files)
  show ?thesis
  proof (cases files)
    case Nil
    with Inr have a: "files_list_outcome env (length (trace s)) = Inr []" by simp
    from a t have b: "files_list_outcome env (length (trace s2)) = Inr []" by simp
    show ?thesis unfolding saveToDrive_absent[OF a] saveToDrive_absent[OF b]
      by (simp add: new_effects_def new_Date_def t)
  next
    case (Cons f fs)
    with Inr have a: "files_list_outcome env (length (trace s)) = Inr (f # fs)" by simp
    from a t have b: "files_list_outcome env (length (trace s2)) = Inr (f # fs)" by simp
    show ?thesis
    proof (cases "files_get_outcome env (Suc (length (trace s)))")
      case (Inl e)
      from Inl t have c: "files_get_outcome env (Suc (length (trace s2))) = Inl e" by simp
      show ?thesis unfolding saveToDrive_get_fails[OF a Inl] saveToDrive_get_fails[OF b c]
        by (simp add: new_effects_def new_Date_def t)
    next
      case (Inr cur)
      from Inr t have c: "files_get_outcome env (Suc (length (trace s2))) = Inr cur" by simp
      show ?thesis unfolding saveToDrive_found[OF a Inr] saveToDrive_found[OF b c]
        by (simp add: new_effects_def new_Date_def t)
    qed
  qed
qed


lemma syncPendingData_storage:
  assumes "STATE_isOnline d" and "STATE_isAuthenticated d" and "getPending d \<noteq> []"
  shows "if list_ex faulted (new_effects d (syncPendingData env d))
         then localStorage (syncPendingData env d) = localStorage d
         else localStorage (syncPendingData env d) = (localStorage d)(pending_memos := None)"
proof -
  let ?s1 = "updateStatus (js ''Syncing...'') (js ''syncing'') d"
  let ?c = "combinedText (getPending d)"
  have p: "trace ?s1 = trace d" "localStorage ?s1 = localStorage d"
    by (simp_all add: updateStatus_def)
  obtain res s2 where run: "saveToDrive env ?c ?s1 = (res, s2)"
    by (cases "saveToDrive env ?c ?s1")
  from saveToDrive_run[of env ?c ?s1] run obtain new where
    s2: "s2 = ?s1\<lparr>trace := trace ?s1 @ new\<rparr>" and f: "list_ex faulted new = isl res"
    by auto
  have t2: "trace s2 = trace d @ new" and l2: "localStorage s2 = localStorage d"
    using s2 p by simp_all
  show ?thesis
  proof (cases res)
    case (Inl e)
    have eq: "syncPendingData env d =
          updateStatus (js ''Sync Failed'') (js ''offline'')
                      (emit (ConsoleError (js ''Sync failed'') e) s2)"
      using assms run Inl by (simp add: syncPendingData_def Let_def)
    have "trace (syncPendingData env d) = trace d @ (new @ [ConsoleError (js ''Sync failed'') e])"
      unfolding eq using t2 by (simp add: updateStatus_def emit_def)
    from new_effects_append[OF this] f Inl l2 show ?thesis
      by (simp add: eq updateStatus_def emit_def)
  next
    case (Inr u)
    have eq: "syncPendingData env d =
         setTimeout (UpdateStatusLater (js ''ONLINE'') (js ''online'')) 2000
                      (updateStatus (js ''Synced!'') (js ''online'')
                         (removeItem pending_memos s2))"
      using assms run Inr by (simp add: syncPendingData_def Let_def)
    have "trace (syncPendingData env d) = trace d @ (new @ [RemoveItem pending_memos])"
      unfolding eq using t2 by (simp add: updateStatus_def emit_def setTimeout_def removeItem_def)
    from new_effects_append[OF this] f Inr l2 show ?thesis
      by (simp add: eq updateStatus_def emit_def setTimeout_def removeItem_def)
  qed
qed

text \<open>
  C2. A sync that runs (the path is viable and the queue is not empty) is all or nothing
  on the storage: when no call to the network made by the run was rejected, the key
  \<open>pending_memos\<close> is removed (it is absent afterwards, not bound to an empty list) and
  nothing else in the storage changes; when some call was rejected, the storage is exactly
  what it was. The relay variant sends the memos one by one, the drive variant in one
  adapter call.
\<close>

theorem sync_all_or_nothing:
  "(appState_isOnline r \<longrightarrow> getPending r \<noteq> [] \<longrightarrow>
      (if list_ex faulted (new_effects r (syncOfflineMemosToSheet env r))
       then localStorage (syncOfflineMemosToSheet env r) = localStorage r
       else localStorage (syncOfflineMemosToSheet env r) = (localStorage r)(pending_memos := None)))
   \<and> (STATE_isOnline d \<longrightarrow> STATE_isAuthenticated d \<longrightarrow> getPending d \<noteq> [] \<longrightarrow>
      (if list_ex faulted (new_effects d (syncPendingData env d))
       then localStorage (syncPendingData env d) = localStorage d
       else localStorage (syncPendingData env d) = (localStorage d)(pending_memos := None)))"
  using syncOfflineMemosToSheet_storage syncPendingData_storage by blast

lemmas example_defs =
  relay_queued_def drive_queued_def relay_page_def drive_page_def good_env_def bad_env_def
  found_env_def example_config_def network_error_def todays_file_def

lemma relay_sync_good:
  "\<not> list_ex faulted (new_effects relay_queued (syncOfflineMemosToSheet good_env relay_queued))"
  by (simp add: syncOfflineMemosToSheet_def sendMemoToSheet_def example_defs getPending_def
      updateAppStatusMessage_def emit_def new_effects_def Let_def setTimeout_def removeItem_def)

lemma relay_sync_bad:
  "list_ex faulted (new_effects relay_queued (syncOfflineMemosToSheet bad_env relay_queued))"
  by (simp add: syncOfflineMemosToSheet_def sendMemoToSheet_def example_defs getPending_def
      updateAppStatusMessage_def emit_def new_effects_def Let_def setTimeout_def removeItem_def)

lemma drive_sync_good:
  "\<not> list_ex faulted (new_effects drive_queued (syncPendingData good_env drive_queued))"
  by (simp add: syncPendingData_def saveToDrive_def saveToDrive_write_def example_defs getPending_def
      updateStatus_def emit_def new_effects_def Let_def setTimeout_def removeItem_def)

lemma drive_sync_bad:
  "list_ex faulted (new_effects drive_queued (syncPendingData bad_env drive_queued))"
  by (simp add: syncPendingData_def saveToDrive_def saveToDrive_write_def example_defs getPending_def
      updateStatus_def emit_def new_effects_def Let_def setTimeout_def removeItem_def)

theorem sync_all_or_nothing_witness:
  "localStorage (syncOfflineMemosToSheet good_env relay_queued) pending_memos = None
   \<and> localStorage (syncOfflineMemosToSheet bad_env relay_queued) pending_memos = Some [memo1, memo2]
   \<and> localStorage (syncPendingData good_env drive_queued) pending_memos = None
   \<and> localStorage (syncPendingData bad_env drive_queued) pending_memos = Some [memo1, memo2]"
proof -
  have r: "appState_isOnline relay_queued" "getPending relay_queued \<noteq> []"
       "localStorage relay_queued pending_memos = Some [memo1, memo2]"
    by (simp_all add: relay_queued_def relay_page_def getPending_def)
  have d: "STATE_isOnline drive_queued" "STATE_isAuthenticated drive_queued"
       "getPending drive_queued \<noteq> []" "localStorage drive_queued pending_memos = Some [memo1, memo2]"
    by (simp_all add: drive_queued_def drive_page_def getPending_def)
  show ?thesis
    using sync_all_or_nothing[where r = relay_queued and env = good_env and d = drive_queued]
          sync_all_or_nothing[where r = relay_queued and env = bad_env and d = drive_queued]
          r d relay_sync_good relay_sync_bad drive_sync_good drive_sync_bad
    by simp
qed

text \<open>
  C4. A sync is a no-op when the path is not viable (offline in the relay variant; offline
  or not authenticated in the drive variant) or when the stored queue is empty, the key
  being absent or bound to the empty list: the page after it is the page before it, so
  the status, the storage and the log of effects, network calls among them, are unchanged.
\<close>

theorem sync_noop_when_not_viable_or_empty:
  "(\<not> appState_isOnline r \<or> getPending r = [] \<longrightarrow> syncOfflineMemosToSheet env r = r)
   \<and> (\<not> STATE_isOnline d \<or> \<not> STATE_isAuthenticated d \<or> getPending d = []
        \<longrightarrow> syncPendingData env d = d)"
  by (auto simp add: syncOfflineMemosToSheet_def syncPendingData_def Let_def)

theorem sync_noop_when_not_viable_or_empty_witness:
  "syncOfflineMemosToSheet bad_env (relay_queued\<lparr>appState_isOnline := False\<rparr>)
     = relay_queued\<lparr>appState_isOnline := False\<rparr>
   \<and> syncOfflineMemosToSheet bad_env relay_page = relay_page
   \<and> syncPendingData bad_env (drive_queued\<lparr>STATE_isAuthenticated := False\<rparr>)
     = drive_queued\<lparr>STATE_isAuthenticated := False\<rparr>
   \<and> syncPendingData bad_env (drive_queued\<lparr>STATE_isOnline := False\<rparr>)
     = drive_queued\<lparr>STATE_isOnline := False\<rparr>
   \<and> syncPendingData bad_env (drive_page\<lparr>localStorage := [pending_memos \<mapsto> []]\<rparr>)
     = drive_page\<lparr>localStorage := [pending_memos \<mapsto> []]\<rparr>"
proof -
  have e: "getPending relay_page = []"
          "getPending (drive_page\<lparr>localStorage := [pending_memos \<mapsto> []]\<rparr>) = []"
    by (simp_all add: getPending_def relay_page_def)
  show ?thesis
    using sync_noop_when_not_viable_or_empty
            [where r = "relay_queued\<lparr>appState_isOnline := False\<rparr>"
               and d = "drive_queued\<lparr>STATE_isAuthenticated := False\<rparr>" and env = bad_env]
          sync_noop_when_not_viable_or_empty
            [where r = relay_page and d = "drive_queued\<lparr>STATE_isOnline := False\<rparr>"
               and env = bad_env]
          sync_noop_when_not_viable_or_empty
            [where r = relay_page
               and d = "drive_page\<lparr>localStorage := [pending_memos \<mapsto> []]\<rparr>"
               and env = bad_env]
          e
    by simp
qed

section \<open>Saving\<close>

lemma shopping_trim:
  "trim (js '' '' @ shopping_list @ js ''\<newline>'') = shopping_list"
  by (simp add: trim_def trimStart_def trimEnd_def js_def shopping_list_def isWhiteSpace_def)

lemma example_iso: "toISOString example_date = js ''2026-02-20T13:54:07.042Z''"
  by (simp add: toISOString_def example_date_def pad2_def padStart_def String_nat.simps
      digit_def js_def Let_def)

lemma shopping_nonempty: "shopping_list \<noteq> []"
  by (simp add: shopping_list_def)

lemma bad_env_facts:
  "fetch_outcome bad_env n = Inl network_error"
  "files_list_outcome bad_env n = Inl network_error"
  "clock bad_env n = example_date"
  "FOLDER_ID (APP_CONFIG bad_env) = js ''folder1''"
  by (simp_all add: bad_env_def good_env_def example_config_def)

lemma network_error_message:
  "truthy (message network_error)" "the (message network_error) = js ''Failed to fetch''"
  "\<not> truthy (result_error_message network_error)"
  by (simp_all add: network_error_def truthy_def js_def)

lemma queued_pages:
  "localStorage relay_queued (js ''pending_memos'') = Some [memo1, memo2]"
  "localStorage drive_queued (js ''pending_memos'') = Some [memo1, memo2]"
  "localStorage relay_page (js ''pending_memos'') = None"
  "trim (memoText_value relay_page) = shopping_list" "trace relay_page = []"
  "trim (memoText_value relay_queued) = shopping_list"
  "trim (memoText_value drive_queued) = shopping_list"
  "trace relay_queued = []" "trace drive_queued = []"
  "memoText_value relay_queued = js '' '' @ shopping_list @ js ''\<newline>''"
  "memoText_value drive_queued = js '' '' @ shopping_list @ js ''\<newline>''"
  by (simp_all add: relay_queued_def drive_queued_def relay_page_def drive_page_def
      pending_memos_def shopping_trim)

lemma saveToDrive_no_alert:
  "\<not> list_ex isAlert (new_effects s (snd (saveToDrive env c s)))"
proof (cases "files_list_outcome env (length (trace s))")
  case (Inl e)
  show ?thesis unfolding saveToDrive_list_fails[OF Inl] by (simp add: new_effects_def)
next
  case (Inr files)
  show ?thesis
  proof (cases files)
    case Nil
    with Inr have a: "files_list_outcome env (length (trace s)) = Inr []" by simp
    show ?thesis unfolding saveToDrive_absent[OF a] by (simp add: new_effects_def)
  next
    case (Cons f fs)
    with Inr have a: "files_list_outcome env (length (trace s)) = Inr (f # fs)" by simp
    show ?thesis
    proof (cases "files_get_outcome env (Suc (length (trace s)))")
      case (Inl e)
      show ?thesis unfolding saveToDrive_get_fails[OF a Inl] by (simp add: new_effects_def)
    next
      case (Inr cur)
      show ?thesis unfolding saveToDrive_found[OF a Inr] by (simp add: new_effects_def)
    qed
  qed
qed

text \<open>The save handler of the drive variant when the adapter throws.\<close>

lemma els_saveBtn_onclick_failure:
  assumes ne: "trim (memoText_value d) \<noteq> []"
      and on: "STATE_isOnline d" "STATE_isAuthenticated d"
      and fail: "fst (saveToDrive env (trim (memoText_value d)) d) = Inl err"
  defines "pre \<equiv> new_effects d (snd (saveToDrive env (trim (memoText_value d)) d))"
  defines "q \<equiv> getPending d @
                 [\<lparr>memo_text = trim (memoText_value d),
                   memo_timestamp = toISOString (clock env (length (trace d) + length pre + 1))\<rparr>]"
  shows "els_saveBtn_onclick env d =
           d\<lparr>statusText_textContent := js ''Saved Locally (Sync later)'',
             statusDot_className := js ''status-dot '' @ js ''offline'',
             saveBtn_disabled := True,
             localStorage := (localStorage d)(pending_memos \<mapsto> q),
             trace := trace d @ pre @
               [ConsoleError (js ''Save failed'') err, SetItem pending_memos q,
                Alert (msg_save_failed @ errMsg err)]\<rparr>"
proof -
  let ?txt = "trim (memoText_value d)"
  let ?s2 = "(updateStatus (js ''Saving...'') (js ''syncing'') d)\<lparr>saveBtn_disabled := True\<rparr>"
  have t: "trace ?s2 = trace d" by (simp add: updateStatus_def)
  from saveToDrive_run[of env ?txt ?s2] obtain new where
    s3: "snd (saveToDrive env ?txt ?s2) = ?s2\<lparr>trace := trace ?s2 @ new\<rparr>" by blast
  have "new_effects ?s2 (snd (saveToDrive env ?txt ?s2)) = new"
    unfolding s3 by (simp add: new_effects_def)
  with saveToDrive_same_trace[OF t, of env ?txt] have new: "new = pre" and
    f2: "fst (saveToDrive env ?txt ?s2) = Inl err"
    using fail by (simp_all add: pre_def)
  have run: "saveToDrive env ?txt ?s2 = (Inl err, ?s2\<lparr>trace := trace d @ pre\<rparr>)"
    using s3 f2 new t by (simp add: prod_eq_iff)
  show ?thesis
    using ne on
    by (simp add: els_saveBtn_onclick_def Let_def run)
       (simp add: saveToLocal_def setItem_def emit_def updateStatus_def new_Date_def
          getPending_def q_def Let_def)
qed

lemma domElements_saveBtn_onclick_failure:
  assumes ne: "trim (memoText_value r) \<noteq> []"
      and on: "appState_isOnline r"
      and fail: "fetch_outcome env (length (trace r)) = Inl err"
  defines "q \<equiv> getPending r @
                 [\<lparr>memo_text = trim (memoText_value r),
                   memo_timestamp = toISOString (clock env (length (trace r) + 2))\<rparr>]"
  shows "domElements_saveBtn_onclick env r =
           r\<lparr>statusText_textContent := msg_kept_locally,
             statusDot_className := js ''status-dot '' @ js ''offline'',
             saveBtn_disabled := True,
             localStorage := (localStorage r)(pending_memos \<mapsto> q),
             trace := trace r @
               [Net (sheetRequest GAS_URL (trim (memoText_value r))
                       (toLocaleString (new_Date env r))) False,
                ConsoleError log_save_failed err, SetItem pending_memos q,
                Alert (msg_save_failed_notice
                       @ (if truthy (message err) then the (message err) else stringified err))]\<rparr>"
proof -
  let ?s2 = "(updateAppStatusMessage msg_saving (js ''syncing'') r)\<lparr>saveBtn_disabled := True\<rparr>"
  have f2: "fetch_outcome env (length (trace ?s2)) = Inl err"
    using fail by (simp add: updateAppStatusMessage_def)
  show ?thesis
    using ne on
    by (simp add: domElements_saveBtn_onclick_def Let_def sendMemoToSheet_fail[OF f2])
       (simp add: handleSaveFailure_def saveTextLocally_def setItem_def emit_def
          updateAppStatusMessage_def new_Date_def getPending_def q_def Let_def)
qed

text \<open>
  C5. A save with a non-empty trimmed text while the remote path is not viable (offline;
  in the drive variant also online without authentication) appends exactly one memo to the
  queue stored under \<open>pending_memos\<close>: the stored list afterwards is the stored list before
  (the empty list when the key was absent) followed by that one memo, which carries the
  trimmed text and the \<open>toISOString\<close> of the current time, a string of the ISO 8601
  shape. The save empties the editor, and its only effect outside the page is that write
  to the storage, so that no call to the network is made.
\<close>

theorem save_without_remote_path_enqueues:
  "(trim (memoText_value r) \<noteq> [] \<longrightarrow> \<not> appState_isOnline r \<longrightarrow>
      (let r' = domElements_saveBtn_onclick env r;
           q = (case localStorage r (js ''pending_memos'') of None \<Rightarrow> [] | Some stored \<Rightarrow> stored)
               @ [\<lparr>memo_text = trim (memoText_value r),
                   memo_timestamp = toISOString (clock env (length (trace r)))\<rparr>]
       in localStorage r' = (localStorage r)(js ''pending_memos'' \<mapsto> q)
          \<and> memoText_value r' = []
          \<and> new_effects r r' = [SetItem (js ''pending_memos'') q]
          \<and> (valid_utc (clock env (length (trace r)))
               \<longrightarrow> isISO8601 (toISOString (clock env (length (trace r)))))))
   \<and> (trim (memoText_value d) \<noteq> [] \<longrightarrow> \<not> (STATE_isOnline d \<and> STATE_isAuthenticated d) \<longrightarrow>
      (let d' = els_saveBtn_onclick env d;
           q = (case localStorage d (js ''pending_memos'') of None \<Rightarrow> [] | Some stored \<Rightarrow> stored)
               @ [\<lparr>memo_text = trim (memoText_value d),
                   memo_timestamp = toISOString (clock env (length (trace d)))\<rparr>]
       in localStorage d' = (localStorage d)(js ''pending_memos'' \<mapsto> q)
          \<and> memoText_value d' = []
          \<and> new_effects d d' = [SetItem (js ''pending_memos'') q]
          \<and> (valid_utc (clock env (length (trace d)))
               \<longrightarrow> isISO8601 (toISOString (clock env (length (trace d)))))))"
proof -
  have r: "trim (memoText_value r) \<noteq> [] \<Longrightarrow> \<not> appState_isOnline r \<Longrightarrow>
      domElements_saveBtn_onclick env r =
        r\<lparr>statusText_textContent := msg_saved_locally,
          statusDot_className := js ''status-dot '' @ js ''offline'',
          memoText_value := [], saveBtn_disabled := True,
          localStorage := (localStorage r)(js ''pending_memos'' \<mapsto>
             (case localStorage r (js ''pending_memos'') of None \<Rightarrow> [] | Some stored \<Rightarrow> stored)
             @ [\<lparr>memo_text = trim (memoText_value r),
                 memo_timestamp = toISOString (clock env (length (trace r)))\<rparr>]),
          timers := timers r @ [(UpdateStatusLater (js ''OFFLINE'') (js ''offline''), 2000)],
          trace := trace r @ [SetItem (js ''pending_memos'')
             ((case localStorage r (js ''pending_memos'') of None \<Rightarrow> [] | Some stored \<Rightarrow> stored)
              @ [\<lparr>memo_text = trim (memoText_value r),
                  memo_timestamp = toISOString (clock env (length (trace r)))\<rparr>])]\<rparr>"
    by (simp add: domElements_saveBtn_onclick_def saveTextLocally_def setItem_def emit_def
        setTimeout_def updateAppStatusMessage_def new_Date_def getPending_def pending_memos_def
        Let_def)
  have d: "trim (memoText_value d) \<noteq> [] \<Longrightarrow> \<not> (STATE_isOnline d \<and> STATE_isAuthenticated d) \<Longrightarrow>
      els_saveBtn_onclick env d =
        d\<lparr>statusText_textContent := js ''Saved Locally'',
          statusDot_className := js ''status-dot '' @ js ''offline'',
          memoText_value := [], saveBtn_disabled := True,
          localStorage := (localStorage d)(js ''pending_memos'' \<mapsto>
             (case localStorage d (js ''pending_memos'') of None \<Rightarrow> [] | Some stored \<Rightarrow> stored)
             @ [\<lparr>memo_text = trim (memoText_value d),
                 memo_timestamp = toISOString (clock env (length (trace d)))\<rparr>]),
          timers := timers d @ [(UpdateStatusLater (js ''OFFLINE'') (js ''offline''), 2000)],
          trace := trace d @ [SetItem (js ''pending_memos'')
             ((case localStorage d (js ''pending_memos'') of None \<Rightarrow> [] | Some stored \<Rightarrow> stored)
              @ [\<lparr>memo_text = trim (memoText_value d),
                  memo_timestamp = toISOString (clock env (length (trace d)))\<rparr>])]\<rparr>"
    by (cases "STATE_isOnline d"; cases "STATE_isAuthenticated d")
       (simp_all add: els_saveBtn_onclick_def saveToLocal_def setItem_def emit_def
          setTimeout_def updateStatus_def new_Date_def getPending_def pending_memos_def Let_def)
  show ?thesis
    by (simp add: Let_def r d new_effects_def toISOString_isISO8601 del: fun_upd_apply)
qed

theorem save_without_remote_path_enqueues_witness:
  "localStorage (domElements_saveBtn_onclick bad_env (relay_queued\<lparr>appState_isOnline := False\<rparr>))
       (js ''pending_memos'')
     = Some [memo1, memo2,
             \<lparr>memo_text = shopping_list, memo_timestamp = js ''2026-02-20T13:54:07.042Z''\<rparr>]
   \<and> memoText_value (domElements_saveBtn_onclick bad_env (relay_queued\<lparr>appState_isOnline := False\<rparr>)) = []
   \<and> new_effects (relay_queued\<lparr>appState_isOnline := False\<rparr>)
         (domElements_saveBtn_onclick bad_env (relay_queued\<lparr>appState_isOnline := False\<rparr>))
     = [SetItem (js ''pending_memos'')
          [memo1, memo2,
           \<lparr>memo_text = shopping_list, memo_timestamp = js ''2026-02-20T13:54:07.042Z''\<rparr>]]
   \<and> localStorage (domElements_saveBtn_onclick bad_env (relay_page\<lparr>appState_isOnline := False\<rparr>))
       (js ''pending_memos'')
     = Some [\<lparr>memo_text = shopping_list, memo_timestamp = js ''2026-02-20T13:54:07.042Z''\<rparr>]
   \<and> isISO8601 (js ''2026-02-20T13:54:07.042Z'')
   \<and> localStorage (els_saveBtn_onclick bad_env (drive_queued\<lparr>STATE_isAuthenticated := False\<rparr>))
       (js ''pending_memos'')
     = Some [memo1, memo2,
             \<lparr>memo_text = shopping_list, memo_timestamp = js ''2026-02-20T13:54:07.042Z''\<rparr>]
   \<and> memoText_value (els_saveBtn_onclick bad_env (drive_queued\<lparr>STATE_isAuthenticated := False\<rparr>)) = []
   \<and> new_effects (drive_queued\<lparr>STATE_isAuthenticated := False\<rparr>)
         (els_saveBtn_onclick bad_env (drive_queued\<lparr>STATE_isAuthenticated := False\<rparr>))
     = [SetItem (js ''pending_memos'')
          [memo1, memo2,
           \<lparr>memo_text = shopping_list, memo_timestamp = js ''2026-02-20T13:54:07.042Z''\<rparr>]]
   \<and> localStorage (els_saveBtn_onclick bad_env (drive_queued\<lparr>STATE_isOnline := False\<rparr>))
       (js ''pending_memos'')
     = Some [memo1, memo2,
             \<lparr>memo_text = shopping_list, memo_timestamp = js ''2026-02-20T13:54:07.042Z''\<rparr>]"
proof -
  let ?queued = "relay_queued\<lparr>appState_isOnline := False\<rparr>"
  let ?empty = "relay_page\<lparr>appState_isOnline := False\<rparr>"
  let ?unauth = "drive_queued\<lparr>STATE_isAuthenticated := False\<rparr>"
  let ?offline = "drive_queued\<lparr>STATE_isOnline := False\<rparr>"
  have r: "trim (memoText_value ?queued) = shopping_list" "\<not> appState_isOnline ?queued"
          "localStorage ?queued (js ''pending_memos'') = Some [memo1, memo2]" "trace ?queued = []"
    by (simp_all add: queued_pages shopping_trim)
  have e: "trim (memoText_value ?empty) = shopping_list" "\<not> appState_isOnline ?empty"
          "localStorage ?empty (js ''pending_memos'') = None" "trace ?empty = []"
    by (simp_all add: queued_pages shopping_trim)
  have d: "trim (memoText_value ?unauth) = shopping_list" "\<not> STATE_isAuthenticated ?unauth"
          "localStorage ?unauth (js ''pending_memos'') = Some [memo1, memo2]" "trace ?unauth = []"
    by (simp_all add: queued_pages shopping_trim)
  have o: "trim (memoText_value ?offline) = shopping_list" "\<not> STATE_isOnline ?offline"
          "localStorage ?offline (js ''pending_memos'') = Some [memo1, memo2]" "trace ?offline = []"
    by (simp_all add: queued_pages shopping_trim)
  have v: "valid_utc example_date"
    by (simp add: valid_utc_def example_date_def)
  note T = save_without_remote_path_enqueues
  show ?thesis
    using T[where r = ?queued and d = ?unauth and env = bad_env]
          T[where r = ?empty and d = ?offline and env = bad_env]
          r e d o v shopping_nonempty
    by (simp add: Let_def example_iso bad_env_facts)
qed

text \<open>
  C1. An online save whose remote call fails keeps the editor as it was and appends the
  trimmed text to the queue stored under \<open>pending_memos\<close>: the stored list afterwards is
  the stored list before (the empty list when the key was absent) followed by one memo with
  that text, so that neither the text nor an earlier note is lost. Only then does it show
  one blocking notice: the effects of the handler end with the write to the storage
  followed by the alert. The notice ends with the message text of the failure: \<open>message\<close>
  in the relay variant, \<open>result.error.message\<close> or else \<open>message\<close> in the drive variant,
  and the JSON text of the thrown value where it has no such text. In the relay variant the
  remote call is the one \<open>fetch\<close>; in the drive variant it is the adapter
  \<open>saveToDrive\<close>, which fails when its search, its download or its upload does.
\<close>

theorem failed_save_keeps_text_and_queues_it:
  "(trim (memoText_value r) \<noteq> [] \<longrightarrow> appState_isOnline r \<longrightarrow>
    fetch_outcome env (length (trace r)) = Inl err \<longrightarrow>
      (let r' = domElements_saveBtn_onclick env r;
           q = (case localStorage r (js ''pending_memos'') of None \<Rightarrow> [] | Some stored \<Rightarrow> stored)
               @ [\<lparr>memo_text = trim (memoText_value r),
                   memo_timestamp = toISOString (clock env (length (trace r) + 2))\<rparr>]
       in memoText_value r' = memoText_value r
          \<and> localStorage r' = (localStorage r)(js ''pending_memos'' \<mapsto> q)
          \<and> new_effects r r' =
               [Net (sheetRequest GAS_URL (trim (memoText_value r))
                       (toLocaleString (clock env (length (trace r))))) False,
                ConsoleError log_save_failed err,
                SetItem (js ''pending_memos'') q,
                Alert (msg_save_failed_notice
                       @ (if truthy (message err) then the (message err) else stringified err))]))
   \<and> (trim (memoText_value d) \<noteq> [] \<longrightarrow> STATE_isOnline d \<longrightarrow> STATE_isAuthenticated d \<longrightarrow>
      fst (saveToDrive env (trim (memoText_value d)) d) = Inl err \<longrightarrow>
      (let d' = els_saveBtn_onclick env d;
           pre = new_effects d (snd (saveToDrive env (trim (memoText_value d)) d));
           q = (case localStorage d (js ''pending_memos'') of None \<Rightarrow> [] | Some stored \<Rightarrow> stored)
               @ [\<lparr>memo_text = trim (memoText_value d),
                   memo_timestamp = toISOString (clock env (length (trace d) + length pre + 1))\<rparr>]
       in memoText_value d' = memoText_value d
          \<and> localStorage d' = (localStorage d)(js ''pending_memos'' \<mapsto> q)
          \<and> \<not> list_ex isAlert pre
          \<and> new_effects d d' =
               pre @ [ConsoleError (js ''Save failed'') err,
                      SetItem (js ''pending_memos'') q,
                      Alert (msg_save_failed
                             @ (if truthy (result_error_message err)
                                then the (result_error_message err)
                                else if truthy (message err) then the (message err)
                                else stringified err))]))"
proof (intro conjI impI)
  assume a: "trim (memoText_value r) \<noteq> []" "appState_isOnline r"
    "fetch_outcome env (length (trace r)) = Inl err"
  show "let r' = domElements_saveBtn_onclick env r;
           q = (case localStorage r (js ''pending_memos'') of None \<Rightarrow> [] | Some stored \<Rightarrow> stored)
               @ [\<lparr>memo_text = trim (memoText_value r),
                   memo_timestamp = toISOString (clock env (length (trace r) + 2))\<rparr>]
       in memoText_value r' = memoText_value r
          \<and> localStorage r' = (localStorage r)(js ''pending_memos'' \<mapsto> q)
          \<and> new_effects r r' =
               [Net (sheetRequest GAS_URL (trim (memoText_value r))
                       (toLocaleString (clock env (length (trace r))))) False,
                ConsoleError log_save_failed err,
                SetItem (js ''pending_memos'') q,
                Alert (msg_save_failed_notice
                       @ (if truthy (message err) then the (message err) else stringified err))]"
    unfolding Let_def domElements_saveBtn_onclick_failure[OF a]
    by (simp add: new_effects_def new_Date_def getPending_def pending_memos_def
          del: fun_upd_apply)
next
  assume a: "trim (memoText_value d) \<noteq> []" "STATE_isOnline d" "STATE_isAuthenticated d"
    "fst (saveToDrive env (trim (memoText_value d)) d) = Inl err"
  show "let d' = els_saveBtn_onclick env d;
           pre = new_effects d (snd (saveToDrive env (trim (memoText_value d)) d));
           q = (case localStorage d (js ''pending_memos'') of None \<Rightarrow> [] | Some stored \<Rightarrow> stored)
               @ [\<lparr>memo_text = trim (memoText_value d),
                   memo_timestamp = toISOString (clock env (length (trace d) + length pre + 1))\<rparr>]
       in memoText_value d' = memoText_value d
          \<and> localStorage d' = (localStorage d)(js ''pending_memos'' \<mapsto> q)
          \<and> \<not> list_ex isAlert pre
          \<and> new_effects d d' =
               pre @ [ConsoleError (js ''Save failed'') err,
                      SetItem (js ''pending_memos'') q,
                      Alert (msg_save_failed
                             @ (if truthy (result_error_message err)
                                then the (result_error_message err)
                                else if truthy (message err) then the (message err)
                                else stringified err))]"
    unfolding Let_def els_saveBtn_onclick_failure[OF a]
    by (simp add: new_effects_def saveToDrive_no_alert[unfolded new_effects_def] errMsg_def
          getPending_def pending_memos_def del: fun_upd_apply)
qed

theorem failed_save_keeps_text_and_queues_it_witness:
  "memoText_value (domElements_saveBtn_onclick bad_env relay_queued)
     = js '' '' @ shopping_list @ js ''\<newline>''
   \<and> localStorage (domElements_saveBtn_onclick bad_env relay_queued) (js ''pending_memos'')
     = Some [memo1, memo2,
             \<lparr>memo_text = shopping_list, memo_timestamp = js ''2026-02-20T13:54:07.042Z''\<rparr>]
   \<and> new_effects relay_queued (domElements_saveBtn_onclick bad_env relay_queued)
     = [Net (sheetRequest GAS_URL shopping_list (js ''2026/02/20 22:54'')) False,
        ConsoleError log_save_failed network_error,
        SetItem (js ''pending_memos'')
          [memo1, memo2,
           \<lparr>memo_text = shopping_list, memo_timestamp = js ''2026-02-20T13:54:07.042Z''\<rparr>],
        Alert (msg_save_failed_notice @ js ''Failed to fetch'')]
   \<and> memoText_value (els_saveBtn_onclick bad_env drive_queued)
     = js '' '' @ shopping_list @ js ''\<newline>''
   \<and> localStorage (els_saveBtn_onclick bad_env drive_queued) (js ''pending_memos'')
     = Some [memo1, memo2,
             \<lparr>memo_text = shopping_list, memo_timestamp = js ''2026-02-20T13:54:07.042Z''\<rparr>]
   \<and> new_effects drive_queued (els_saveBtn_onclick bad_env drive_queued)
     = [Net (listRequest (getFileName example_date) (js ''folder1'')) False,
        ConsoleError (js ''Search failed'') network_error,
        ConsoleError (js ''Save failed'') network_error,
        SetItem (js ''pending_memos'')
          [memo1, memo2,
           \<lparr>memo_text = shopping_list, memo_timestamp = js ''2026-02-20T13:54:07.042Z''\<rparr>],
        Alert (msg_save_failed @ js ''Failed to fetch'')]"
proof -
  have r: "appState_isOnline relay_queued"
    by (simp add: relay_queued_def relay_page_def)
  have d: "STATE_isOnline drive_queued" "STATE_isAuthenticated drive_queued"
    by (simp_all add: drive_queued_def drive_page_def)
  have l: "files_list_outcome bad_env (length (trace drive_queued)) = Inl network_error"
    by (simp add: bad_env_facts)
  have s: "fst (saveToDrive bad_env shopping_list drive_queued) = Inl network_error"
          "new_effects drive_queued (snd (saveToDrive bad_env shopping_list drive_queued))
             = [Net (listRequest (getFileName example_date) (js ''folder1'')) False,
                ConsoleError (js ''Search failed'') network_error]"
    unfolding saveToDrive_list_fails[OF l]
    by (simp_all add: new_effects_def new_Date_def bad_env_facts queued_pages)
  have ts: "toLocaleString example_date = js ''2026/02/20 22:54''"
    by (simp add: toLocaleString_def eraYear_def example_date_def String_int_def pad2_def
        padStart_def String_nat.simps digit_def js_def)
  note T = failed_save_keeps_text_and_queues_it
  show ?thesis
    using T[where r = relay_queued and d = drive_queued and env = bad_env and err = network_error]
          r d s shopping_nonempty
    by (simp add: Let_def bad_env_facts network_error_message queued_pages shopping_trim
        example_iso ts)
qed

section \<open>The save button\<close>

lemma same_editor_refl: "same_editor s s"
  by (simp add: same_editor_def)

lemma syncOfflineMemosToSheet_editor: "same_editor s (syncOfflineMemosToSheet env s)"
proof -
  let ?s1 = "updateAppStatusMessage msg_syncing (js ''syncing'') s"
  obtain res s2 where run: "sendPendingMemos env (getPending s) ?s1 = (res, s2)"
    by (cases "sendPendingMemos env (getPending s) ?s1")
  from sendPendingMemos_run[of env "getPending s" ?s1] run obtain new where
    s2: "s2 = ?s1\<lparr>trace := trace ?s1 @ new\<rparr>" by auto
  show ?thesis
    unfolding same_editor_def syncOfflineMemosToSheet_def Let_def run
    by (cases res)
       (simp_all add: s2 updateAppStatusMessage_def emit_def setTimeout_def removeItem_def)
qed

lemma syncPendingData_editor: "same_editor s (syncPendingData env s)"
proof -
  let ?s1 = "updateStatus (js ''Syncing...'') (js ''syncing'') s"
  let ?c = "combinedText (getPending s)"
  obtain res s2 where run: "saveToDrive env ?c ?s1 = (res, s2)"
    by (cases "saveToDrive env ?c ?s1")
  from saveToDrive_run[of env ?c ?s1] run obtain new where
    s2: "s2 = ?s1\<lparr>trace := trace ?s1 @ new\<rparr>" by auto
  show ?thesis
    unfolding same_editor_def syncPendingData_def Let_def run
    by (cases res)
       (simp_all add: s2 updateStatus_def emit_def setTimeout_def removeItem_def)
qed

lemma relay_step_editor:
  assumes "\<not> isEditorEvent e" and "saveBtn_disabled s"
  shows "same_editor s (relay_step env e s)"
proof (cases e)
  case Load
  have "same_editor s (checkOfflineUnsavedMemos (updateOnlineStatusDisplay env (initializeDateDisplay env s)))"
    by (simp add: same_editor_def checkOfflineUnsavedMemos_def updateOnlineStatusDisplay_def
        initializeDateDisplay_def updateAppStatusMessage_def emit_def Let_def)
  moreover have "same_editor s' (syncOfflineMemosToSheet env s')" for s'
    by (rule syncOfflineMemosToSheet_editor)
  ultimately show ?thesis using Load
    by (simp add: window_load_def Let_def same_editor_def)
next
  case Online
  have "same_editor s' (syncOfflineMemosToSheet env s')" for s'
    by (rule syncOfflineMemosToSheet_editor)
  from this[of "updateAppStatusMessage (js ''ONLINE'') (js ''online'') (s\<lparr>appState_isOnline := True\<rparr>)"]
  show ?thesis using Online
    by (simp add: window_online_def same_editor_def updateAppStatusMessage_def)
next
  case (TimerFires i)
  have "same_editor s' (run_timer a s')" for a s'
    by (cases a) (simp_all add: same_editor_def updateAppStatusMessage_def)
  from this[of "s\<lparr>timers := take i (timers s) @ drop (Suc i) (timers s)\<rparr>" "fst (timers s ! i)"]
  show ?thesis using TimerFires by (simp add: same_editor_def)
qed (use assms in \<open>simp_all add: same_editor_def voiceRecognizer_onstart_def
      voiceRecognizer_onend_def domElements_micBtn_onclick_def window_offline_def
      updateAppStatusMessage_def emit_def Let_def\<close>)

lemma renderAuthButton_editor: "same_editor s (renderAuthButton env s)"
  by (simp add: renderAuthButton_def same_editor_def updateStatus_def)

lemma maybeEnableAuth_editor: "same_editor s (maybeEnableAuth env s)"
  using renderAuthButton_editor[of s env] by (simp add: maybeEnableAuth_def same_editor_def)

lemma initGis_editor: "same_editor s (initGis env s)"
  using maybeEnableAuth_editor[of "s\<lparr>STATE_tokenClient := True, STATE_gisInited := True\<rparr>" env]
  by (simp add: initGis_def same_editor_def emit_def)

lemma initGapi_editor: "same_editor s (initGapi env s)"
proof (cases "client_init_outcome env (length (trace s))")
  case (Inl e)
  then show ?thesis by (simp add: initGapi_def same_editor_def emit_def Let_def)
next
  case (Inr u)
  let ?s1 = "(emit (Net (ClientInit (API_KEY (APP_CONFIG env)) (DISCOVERY_DOC (APP_CONFIG env))) True) s)
               \<lparr>STATE_gapiInited := True\<rparr>"
  show ?thesis using Inr maybeEnableAuth_editor[of ?s1 env]
    by (simp add: initGapi_def same_editor_def emit_def Let_def)
qed

lemma drive_step_editor:
  assumes "\<not> isEditorEvent e" and "saveBtn_disabled s"
  shows "same_editor s (drive_step env e s)"
proof (cases e)
  case Online
  from syncPendingData_editor[of "updateStatus (js ''ONLINE'') (js ''online'') (s\<lparr>STATE_isOnline := True\<rparr>)" env]
  show ?thesis using Online
    by (simp add: drive_online_def same_editor_def updateStatus_def)
next
  case (TimerFires i)
  have "same_editor s' (drive_run_timer env a s')" for a s'
    using initGis_editor[of s' env] by (cases a) (simp_all add: same_editor_def updateStatus_def)
  from this[of "s\<lparr>timers := take i (timers s) @ drop (Suc i) (timers s)\<rparr>" "fst (timers s ! i)"]
  show ?thesis using TimerFires by (simp add: same_editor_def)
next
  case GapiClientLoaded
  then show ?thesis using initGapi_editor[of s env] by simp
next
  case (TokenResponse resp)
  show ?thesis
  proof (cases resp)
    case None
    from syncPendingData_editor[of "updateStatus (js ''ONLINE (AUTHED)'') (js ''online'')
               (s\<lparr>STATE_isAuthenticated := True, authContainer_button := False\<rparr>)" env]
    show ?thesis using TokenResponse None
      by (simp add: tokenClient_callback_run_def same_editor_def updateStatus_def)
  next
    case (Some err)
    then show ?thesis using TokenResponse
      by (simp add: tokenClient_callback_run_def same_editor_def emit_def)
  qed
qed (use assms in \<open>simp_all add: same_editor_def recognition_onstart_def
      recognition_onend_def els_micBtn_onclick_def drive_offline_def window_onload_def
      loadOfflineData_def checkOnlineStatus_def initDateDisplay_def handleAuthClick_def
      updateStatus_def emit_def Let_def\<close>)

lemma relay_events_editor:
  "list_all (\<lambda>e. \<not> isEditorEvent e) es \<Longrightarrow> saveBtn_disabled s \<Longrightarrow>
   same_editor s (foldl (\<lambda>s e. relay_step env e s) s es)"
proof (induction es arbitrary: s)
  case Nil
  then show ?case by (simp add: same_editor_def)
next
  case (Cons e es)
  from Cons.prems have q: "\<not> isEditorEvent e" "list_all (\<lambda>e. \<not> isEditorEvent e) es" by simp_all
  from relay_step_editor[OF q(1) Cons.prems(2), of env]
  have 1: "same_editor s (relay_step env e s)" .
  then have "saveBtn_disabled (relay_step env e s)"
    using Cons.prems(2) by (simp add: same_editor_def)
  from Cons.IH[OF q(2) this] 1 show ?case by (simp add: same_editor_def)
qed

lemma drive_events_editor:
  "list_all (\<lambda>e. \<not> isEditorEvent e) es \<Longrightarrow> saveBtn_disabled s \<Longrightarrow>
   same_editor s (foldl (\<lambda>s e. drive_step env e s) s es)"
proof (induction es arbitrary: s)
  case Nil
  then show ?case by (simp add: same_editor_def)
next
  case (Cons e es)
  from Cons.prems have q: "\<not> isEditorEvent e" "list_all (\<lambda>e. \<not> isEditorEvent e) es" by simp_all
  from drive_step_editor[OF q(1) Cons.prems(2), of env]
  have 1: "same_editor s (drive_step env e s)" .
  then have "saveBtn_disabled (drive_step env e s)"
    using Cons.prems(2) by (simp add: same_editor_def)
  from Cons.IH[OF q(2) this] 1 show ?case by (simp add: same_editor_def)
qed

lemma editor_events_enable:
  "trim v \<noteq> [] \<Longrightarrow> \<not> saveBtn_disabled (relay_step env (EditorInput v) r)"
  "trim v \<noteq> [] \<Longrightarrow> \<not> saveBtn_disabled (drive_step env (EditorInput v) d)"
  "SpeechRecognition env \<Longrightarrow> finalTranscript_from b (resultIndex b) [] \<noteq> [] \<Longrightarrow>
     \<not> saveBtn_disabled (relay_step env (RecognitionResult b) r)"
  "SpeechRecognition env \<Longrightarrow> finalTranscript_from b (resultIndex b) [] \<noteq> [] \<Longrightarrow>
     \<not> saveBtn_disabled (drive_step env (RecognitionResult b) d)"
  by (simp_all add: memoText_oninput_def els_memoText_oninput_def voiceRecognizer_onresult_def
      recognition_onresult_def Let_def)

text \<open>
  C8. After an online save whose remote call fails, the save button is disabled although
  the editor still holds the text, whose trimmed form is not empty: the failure branch
  does not enable it. A click on the disabled button is not delivered, so it changes
  nothing; and through every sequence of events other than an input in the editor and a
  dictation result the button stays disabled and the editor keeps the text. An input
  event that leaves a non-blank text in the editor, and a dictation result with a
  non-empty final transcript, enable the button again. Both variants.
\<close>

theorem failed_save_leaves_save_button_disabled:
  "(trim (memoText_value r) \<noteq> [] \<longrightarrow> appState_isOnline r \<longrightarrow>
    fetch_outcome env (length (trace r)) = Inl err \<longrightarrow>
      (let r' = domElements_saveBtn_onclick env r
       in saveBtn_disabled r' \<and> memoText_value r' = memoText_value r
          \<and> relay_step env SaveClick r' = r'
          \<and> (\<forall>es. list_all (\<lambda>e. \<not> isEditorEvent e) es \<longrightarrow>
                (let r'' = foldl (\<lambda>s e. relay_step env e s) r' es
                 in saveBtn_disabled r'' \<and> memoText_value r'' = memoText_value r))))
   \<and> (trim (memoText_value d) \<noteq> [] \<longrightarrow> STATE_isOnline d \<longrightarrow> STATE_isAuthenticated d \<longrightarrow>
      fst (saveToDrive env (trim (memoText_value d)) d) = Inl err \<longrightarrow>
      (let d' = els_saveBtn_onclick env d
       in saveBtn_disabled d' \<and> memoText_value d' = memoText_value d
          \<and> drive_step env SaveClick d' = d'
          \<and> (\<forall>es. list_all (\<lambda>e. \<not> isEditorEvent e) es \<longrightarrow>
                (let d'' = foldl (\<lambda>s e. drive_step env e s) d' es
                 in saveBtn_disabled d'' \<and> memoText_value d'' = memoText_value d))))
   \<and> (trim v \<noteq> [] \<longrightarrow>
        \<not> saveBtn_disabled (relay_step env (EditorInput v) r0)
        \<and> \<not> saveBtn_disabled (drive_step env (EditorInput v) d0))
   \<and> (SpeechRecognition env \<longrightarrow>
       concat (map transcript0 (filter isFinal (drop (resultIndex b) (results b)))) \<noteq> [] \<longrightarrow>
        \<not> saveBtn_disabled (relay_step env (RecognitionResult b) r0)
        \<and> \<not> saveBtn_disabled (drive_step env (RecognitionResult b) d0))"
proof (intro conjI impI)
  assume a: "trim (memoText_value r) \<noteq> []" "appState_isOnline r"
    "fetch_outcome env (length (trace r)) = Inl err"
  let ?r' = "domElements_saveBtn_onclick env r"
  have 1: "saveBtn_disabled ?r'" "memoText_value ?r' = memoText_value r"
    unfolding domElements_saveBtn_onclick_failure[OF a] by simp_all
  have 2: "list_all (\<lambda>e. \<not> isEditorEvent e) es \<Longrightarrow>
           saveBtn_disabled (foldl (\<lambda>s e. relay_step env e s) ?r' es)
           \<and> memoText_value (foldl (\<lambda>s e. relay_step env e s) ?r' es) = memoText_value r" for es
    using relay_events_editor[of es ?r' env] 1 by (simp add: same_editor_def)
  show "let r' = domElements_saveBtn_onclick env r
       in saveBtn_disabled r' \<and> memoText_value r' = memoText_value r
          \<and> relay_step env SaveClick r' = r'
          \<and> (\<forall>es. list_all (\<lambda>e. \<not> isEditorEvent e) es \<longrightarrow>
                (let r'' = foldl (\<lambda>s e. relay_step env e s) r' es
                 in saveBtn_disabled r'' \<and> memoText_value r'' = memoText_value r))"
    unfolding Let_def using 1 2 by simp
next
  assume a: "trim (memoText_value d) \<noteq> []" "STATE_isOnline d" "STATE_isAuthenticated d"
    "fst (saveToDrive env (trim (memoText_value d)) d) = Inl err"
  let ?d' = "els_saveBtn_onclick env d"
  have 1: "saveBtn_disabled ?d'" "memoText_value ?d' = memoText_value d"
    unfolding els_saveBtn_onclick_failure[OF a] by simp_all
  have 2: "list_all (\<lambda>e. \<not> isEditorEvent e) es \<Longrightarrow>
           saveBtn_disabled (foldl (\<lambda>s e. drive_step env e s) ?d' es)
           \<and> memoText_value (foldl (\<lambda>s e. drive_step env e s) ?d' es) = memoText_value d" for es
    using drive_events_editor[of es ?d' env] 1 by (simp add: same_editor_def)
  show "let d' = els_saveBtn_onclick env d
       in saveBtn_disabled d' \<and> memoText_value d' = memoText_value d
          \<and> drive_step env SaveClick d' = d'
          \<and> (\<forall>es. list_all (\<lambda>e. \<not> isEditorEvent e) es \<longrightarrow>
                (let d'' = foldl (\<lambda>s e. drive_step env e s) d' es
                 in saveBtn_disabled d'' \<and> memoText_value d'' = memoText_value d))"
    unfolding Let_def using 1 2 by simp
next
  assume "trim v \<noteq> []"
  then show "\<not> saveBtn_disabled (relay_step env (EditorInput v) r0)"
    by (rule editor_events_enable)
next
  assume "trim v \<noteq> []"
  then show "\<not> saveBtn_disabled (drive_step env (EditorInput v) d0)"
    by (rule editor_events_enable)
next
  assume s: "SpeechRecognition env"
    and c: "concat (map transcript0 (filter isFinal (drop (resultIndex b) (results b)))) \<noteq> []"
  have "finalTranscript_from b (resultIndex b) [] \<noteq> []"
    unfolding finalTranscript_from_eq append_Nil by (rule c)
  with s show "\<not> saveBtn_disabled (relay_step env (RecognitionResult b) r0)"
    by (rule editor_events_enable)
next
  assume s: "SpeechRecognition env"
    and c: "concat (map transcript0 (filter isFinal (drop (resultIndex b) (results b)))) \<noteq> []"
  have "finalTranscript_from b (resultIndex b) [] \<noteq> []"
    unfolding finalTranscript_from_eq append_Nil by (rule c)
  with s show "\<not> saveBtn_disabled (drive_step env (RecognitionResult b) d0)"
    by (rule editor_events_enable)
qed

theorem failed_save_leaves_save_button_disabled_witness:
  "saveBtn_disabled (domElements_saveBtn_onclick bad_env relay_page)
   \<and> trim (memoText_value (domElements_saveBtn_onclick bad_env relay_page)) = shopping_list
   \<and> relay_step bad_env SaveClick (domElements_saveBtn_onclick bad_env relay_page)
       = domElements_saveBtn_onclick bad_env relay_page
   \<and> saveBtn_disabled
       (foldl (\<lambda>s e. relay_step bad_env e s) (domElements_saveBtn_onclick bad_env relay_page)
          [Offline, SaveClick, Online, TimerFires 0])
   \<and> \<not> saveBtn_disabled
         (relay_step bad_env (EditorInput (js ''x'')) (domElements_saveBtn_onclick bad_env relay_page))
   \<and> saveBtn_disabled (els_saveBtn_onclick bad_env drive_page)
   \<and> trim (memoText_value (els_saveBtn_onclick bad_env drive_page)) = shopping_list
   \<and> drive_step bad_env SaveClick (els_saveBtn_onclick bad_env drive_page)
       = els_saveBtn_onclick bad_env drive_page
   \<and> saveBtn_disabled
       (foldl (\<lambda>s e. drive_step bad_env e s) (els_saveBtn_onclick bad_env drive_page)
          [Offline, SaveClick, Online, TokenResponse None])
   \<and> \<not> saveBtn_disabled
         (drive_step bad_env (RecognitionResult example_batch) (els_saveBtn_onclick bad_env drive_page))"
proof -
  have r: "trim (memoText_value relay_page) = shopping_list" "appState_isOnline relay_page"
    by (simp_all add: relay_page_def shopping_trim)
  have d: "trim (memoText_value drive_page) = shopping_list" "STATE_isOnline drive_page"
          "STATE_isAuthenticated drive_page" "trace drive_page = []"
    by (simp_all add: drive_page_def shopping_trim)
  have l: "files_list_outcome bad_env (length (trace drive_page)) = Inl network_error"
    by (simp add: bad_env_facts)
  have s: "fst (saveToDrive bad_env shopping_list drive_page) = Inl network_error"
    unfolding saveToDrive_list_fails[OF l] by simp
  have x: "trim (js ''x'') \<noteq> []"
    by (simp add: trim_def trimStart_def trimEnd_def js_def isWhiteSpace_def)
  have b: "SpeechRecognition bad_env"
     "concat (map transcript0 (filter isFinal (drop (resultIndex example_batch) (results example_batch)))) \<noteq> []"
    by (simp_all add: bad_env_def good_env_def example_batch_def shopping_list_def)
  have e: "list_all (\<lambda>e. \<not> isEditorEvent e) [Offline, SaveClick, Online, TimerFires 0]"
          "list_all (\<lambda>e. \<not> isEditorEvent e) [Offline, SaveClick, Online, TokenResponse None]"
    by simp_all
  note t = failed_save_leaves_save_button_disabled
            [where r = relay_page and d = drive_page and env = bad_env and err = network_error
               and v = "js ''x''" and b = example_batch
               and ?r0.0 = "domElements_saveBtn_onclick bad_env relay_page"
               and ?d0.0 = "els_saveBtn_onclick bad_env drive_page", unfolded Let_def]
  show ?thesis
    using t r d s x b shopping_nonempty bad_env_facts(1)[of "length (trace relay_page)"]
    by (simp del: foldl_Cons)
qed

section \<open>The drive adapter\<close>

lemma toLocaleTimeString_digits:
  assumes "getHours t < 24" "getMinutes t < 60"
  shows "toLocaleTimeString t =
           [digit (getHours t div 10), digit (getHours t mod 10)] @ js '':''
           @ [digit (getMinutes t div 10), digit (getMinutes t mod 10)]"
proof -
  have "getHours t < 100" "getMinutes t < 100" using assms by simp_all
  then show ?thesis by (simp add: toLocaleTimeString_def pad2_digits)
qed



lemma foldl_append_concat:
  "foldl (\<lambda>acc x. acc @ f x) a xs = a @ concat (map f xs)"
  by (induction xs arbitrary: a) simp_all

lemma combinedText_concat:
  "combinedText pending =
     concat (map (\<lambda>item. js ''\<newline>(Synced from offline)\<newline>'' @ memo_text item @ js ''\<newline>'')
               pending)"
  using foldl_append_concat
          [of "\<lambda>item. js ''\<newline>(Synced from offline)\<newline>'' @ memo_text item @ js ''\<newline>''"
              "[]" pending]
  by (simp add: combinedText_def)

lemma saveToLocal_getPending:
  "getPending (saveToLocal env t s) =
     getPending s @ [\<lparr>memo_text = t, memo_timestamp = toISOString (new_Date env s)\<rparr>]"
  by (simp add: saveToLocal_def setItem_def emit_def getPending_def Let_def)

lemma saveToLocal_order:
  "map memo_text (getPending (foldl (\<lambda>s t. saveToLocal env t s) s ts))
     = map memo_text (getPending s) @ ts"
  by (induction ts arbitrary: s) (simp_all add: saveToLocal_getPending)

lemma syncPendingData_effects:
  assumes "STATE_isOnline d" and "STATE_isAuthenticated d" and "getPending d \<noteq> []"
  shows "new_effects d (syncPendingData env d) =
           new_effects d (snd (saveToDrive env (combinedText (getPending d))
                                  (updateStatus (js ''Syncing...'') (js ''syncing'') d)))
           @ (case fst (saveToDrive env (combinedText (getPending d))
                          (updateStatus (js ''Syncing...'') (js ''syncing'') d)) of
                Inr u \<Rightarrow> [RemoveItem pending_memos]
              | Inl e \<Rightarrow> [ConsoleError (js ''Sync failed'') e])"
proof -
  let ?s1 = "updateStatus (js ''Syncing...'') (js ''syncing'') d"
  let ?c = "combinedText (getPending d)"
  have p: "trace ?s1 = trace d" by (simp add: updateStatus_def)
  obtain res s2 where run: "saveToDrive env ?c ?s1 = (res, s2)"
    by (cases "saveToDrive env ?c ?s1")
  from saveToDrive_run[of env ?c ?s1] run obtain new where
    s2: "s2 = ?s1\<lparr>trace := trace ?s1 @ new\<rparr>" by auto
  have t2: "trace s2 = trace d @ new" using s2 p by simp
  show ?thesis
    using assms unfolding syncPendingData_def Let_def run
    by (cases res)
       (simp_all add: new_effects_def t2 updateStatus_def emit_def setTimeout_def removeItem_def)
qed

lemma example_time: "toLocaleTimeString example_date = js ''22:54''"
  by (simp add: toLocaleTimeString_def example_date_def pad2_def padStart_def String_nat.simps
      digit_def js_def)

lemma example_name: "getFileName example_date = js ''2026-02-20.md''"
  by (simp add: getFileName_def example_date_def padStart_def String_nat.simps String_int_def
      digit_def js_def Let_def)

lemma milk_body_first:
  "trim ([] @ (js ''\<newline>## '' @ js ''22:54'' @ js ''\<newline>'' @ js ''milk'' @ js ''\<newline>''))
     = js ''## 22:54\<newline>milk''"
  by (simp add: trim_def trimStart_def trimEnd_def js_def isWhiteSpace_def)

lemma milk_body_second:
  "trim (js ''## 09:00\<newline>first''
         @ (js ''\<newline>## '' @ js ''22:54'' @ js ''\<newline>'' @ js ''milk'' @ js ''\<newline>''))
     = js ''## 09:00\<newline>first\<newline>## 22:54\<newline>milk''"
  by (simp add: trim_def trimStart_def trimEnd_def js_def isWhiteSpace_def)

lemma good_env_facts:
  "files_list_outcome good_env n = Inr []" "clock good_env n = example_date"
  "FOLDER_ID (APP_CONFIG good_env) = js ''folder1''" "client_request_outcome good_env n = Inr ()"
  by (simp_all add: good_env_def example_config_def)

lemma found_env_facts:
  "files_list_outcome found_env n = Inr [todays_file]" "clock found_env n = example_date"
  "files_get_outcome found_env n = Inr (js ''## 09:00\<newline>first'')"
  "FOLDER_ID (APP_CONFIG found_env) = js ''folder1''" "client_request_outcome found_env n = Inr ()"
  "file_id todays_file = js ''f1''"
  by (simp_all add: found_env_def good_env_def example_config_def todays_file_def)

text \<open>
  C3, as the code has it. The body that \<open>saveToDrive\<close> uploads, in the second part of
  its multipart request, is the existing content (the empty string when the search finds
  no document, the downloaded text when it finds one) followed by the new entry, the
  whole trimmed. The entry is a newline, the heading \<open>## \<close> with the time, one newline,
  the text handed to the adapter and one newline: line breaks, not blank lines. The time
  is the local hour and minute, two digits each. The body is the same whether the
  document is updated (a found document with a non-empty id) or created.
\<close>

theorem drive_entry_and_body:
  "(files_list_outcome env (length (trace s)) = Inr [] \<longrightarrow>
      new_effects s (snd (saveToDrive env content s)) =
        [Net (listRequest (getFileName (new_Date env s)) (FOLDER_ID (APP_CONFIG env))) True,
         Net (ClientRequest (js ''/upload/drive/v3/files'') (js ''POST'') (js ''multipart'')
                (js ''multipart/related; boundary=foo_bar_baz'')
                (js ''--foo_bar_baz\<newline>Content-Type: application/json; charset=UTF-8\<newline>\<newline>''
                 @ createMetadata (getFileName (new_Date env s)) (FOLDER_ID (APP_CONFIG env))
                 @ js ''\<newline>--foo_bar_baz\<newline>Content-Type: text/markdown\<newline>\<newline>''
                 @ trim ([] @ (js ''\<newline>## ''
                               @ toLocaleTimeString (clock env (Suc (length (trace s))))
                               @ js ''\<newline>'' @ content @ js ''\<newline>''))
                 @ js ''\<newline>--foo_bar_baz--''))
             (\<not> isl (client_request_outcome env (Suc (length (trace s)))))])
   \<and> (files_list_outcome env (length (trace s)) = Inr (f # fs) \<longrightarrow>
      files_get_outcome env (Suc (length (trace s))) = Inr currentContent \<longrightarrow>
      file_id f \<noteq> [] \<longrightarrow>
      new_effects s (snd (saveToDrive env content s)) =
        [Net (listRequest (getFileName (new_Date env s)) (FOLDER_ID (APP_CONFIG env))) True,
         Net (FilesGet (file_id f) (js ''media'')) True,
         Net (ClientRequest (js ''/upload/drive/v3/files/'' @ file_id f) (js ''PATCH'')
                (js ''multipart'') (js ''multipart/related; boundary=foo_bar_baz'')
                (js ''--foo_bar_baz\<newline>Content-Type: application/json; charset=UTF-8\<newline>\<newline>''
                 @ updateMetadata (getFileName (new_Date env s))
                 @ js ''\<newline>--foo_bar_baz\<newline>Content-Type: text/markdown\<newline>\<newline>''
                 @ trim (currentContent @ (js ''\<newline>## ''
                               @ toLocaleTimeString (clock env (Suc (Suc (length (trace s)))))
                               @ js ''\<newline>'' @ content @ js ''\<newline>''))
                 @ js ''\<newline>--foo_bar_baz--''))
             (\<not> isl (client_request_outcome env (Suc (Suc (length (trace s))))))])
   \<and> (files_list_outcome env (length (trace s)) = Inr (f # fs) \<longrightarrow>
      files_get_outcome env (Suc (length (trace s))) = Inr currentContent \<longrightarrow>
      file_id f = [] \<longrightarrow>
      new_effects s (snd (saveToDrive env content s)) =
        [Net (listRequest (getFileName (new_Date env s)) (FOLDER_ID (APP_CONFIG env))) True,
         Net (FilesGet [] (js ''media'')) True,
         Net (ClientRequest (js ''/upload/drive/v3/files'') (js ''POST'') (js ''multipart'')
                (js ''multipart/related; boundary=foo_bar_baz'')
                (js ''--foo_bar_baz\<newline>Content-Type: application/json; charset=UTF-8\<newline>\<newline>''
                 @ createMetadata (getFileName (new_Date env s)) (FOLDER_ID (APP_CONFIG env))
                 @ js ''\<newline>--foo_bar_baz\<newline>Content-Type: text/markdown\<newline>\<newline>''
                 @ trim (currentContent @ (js ''\<newline>## ''
                               @ toLocaleTimeString (clock env (Suc (Suc (length (trace s)))))
                               @ js ''\<newline>'' @ content @ js ''\<newline>''))
                 @ js ''\<newline>--foo_bar_baz--''))
             (\<not> isl (client_request_outcome env (Suc (Suc (length (trace s))))))])
   \<and> (getHours t < 24 \<longrightarrow> getMinutes t < 60 \<longrightarrow>
        toLocaleTimeString t =
           [digit (getHours t div 10), digit (getHours t mod 10)] @ js '':''
           @ [digit (getMinutes t div 10), digit (getMinutes t mod 10)])"
proof -
  have absent: "new_effects s (snd (saveToDrive env content s)) =
        [Net (listRequest (getFileName (new_Date env s)) (FOLDER_ID (APP_CONFIG env))) True,
         Net (ClientRequest (js ''/upload/drive/v3/files'') (js ''POST'') (js ''multipart'')
                (js ''multipart/related; boundary=foo_bar_baz'')
                (js ''--foo_bar_baz\<newline>Content-Type: application/json; charset=UTF-8\<newline>\<newline>''
                 @ createMetadata (getFileName (new_Date env s)) (FOLDER_ID (APP_CONFIG env))
                 @ js ''\<newline>--foo_bar_baz\<newline>Content-Type: text/markdown\<newline>\<newline>''
                 @ trim ([] @ (js ''\<newline>## ''
                               @ toLocaleTimeString (clock env (Suc (length (trace s))))
                               @ js ''\<newline>'' @ content @ js ''\<newline>''))
                 @ js ''\<newline>--foo_bar_baz--''))
             (\<not> isl (client_request_outcome env (Suc (length (trace s)))))]"
    if a: "files_list_outcome env (length (trace s)) = Inr []"
    unfolding saveToDrive_absent[OF a]
    by (simp add: new_effects_def writeRequest_def truthy_def postRequest_def
        multipartRequestBody_def finalContent_def newEntry_def)
  have patch: "new_effects s (snd (saveToDrive env content s)) =
        [Net (listRequest (getFileName (new_Date env s)) (FOLDER_ID (APP_CONFIG env))) True,
         Net (FilesGet (file_id f) (js ''media'')) True,
         Net (ClientRequest (js ''/upload/drive/v3/files/'' @ file_id f) (js ''PATCH'')
                (js ''multipart'') (js ''multipart/related; boundary=foo_bar_baz'')
                (js ''--foo_bar_baz\<newline>Content-Type: application/json; charset=UTF-8\<newline>\<newline>''
                 @ updateMetadata (getFileName (new_Date env s))
                 @ js ''\<newline>--foo_bar_baz\<newline>Content-Type: text/markdown\<newline>\<newline>''
                 @ trim (currentContent @ (js ''\<newline>## ''
                               @ toLocaleTimeString (clock env (Suc (Suc (length (trace s)))))
                               @ js ''\<newline>'' @ content @ js ''\<newline>''))
                 @ js ''\<newline>--foo_bar_baz--''))
             (\<not> isl (client_request_outcome env (Suc (Suc (length (trace s))))))]"
    if a: "files_list_outcome env (length (trace s)) = Inr (f # fs)"
      and b: "files_get_outcome env (Suc (length (trace s))) = Inr currentContent"
      and c: "file_id f \<noteq> []"
    unfolding saveToDrive_found[OF a b] using c
    by (simp add: new_effects_def writeRequest_def truthy_def patchRequest_def
        multipartRequestBody_def finalContent_def newEntry_def)
  have post: "new_effects s (snd (saveToDrive env content s)) =
        [Net (listRequest (getFileName (new_Date env s)) (FOLDER_ID (APP_CONFIG env))) True,
         Net (FilesGet [] (js ''media'')) True,
         Net (ClientRequest (js ''/upload/drive/v3/files'') (js ''POST'') (js ''multipart'')
                (js ''multipart/related; boundary=foo_bar_baz'')
                (js ''--foo_bar_baz\<newline>Content-Type: application/json; charset=UTF-8\<newline>\<newline>''
                 @ createMetadata (getFileName (new_Date env s)) (FOLDER_ID (APP_CONFIG env))
                 @ js ''\<newline>--foo_bar_baz\<newline>Content-Type: text/markdown\<newline>\<newline>''
                 @ trim (currentContent @ (js ''\<newline>## ''
                               @ toLocaleTimeString (clock env (Suc (Suc (length (trace s)))))
                               @ js ''\<newline>'' @ content @ js ''\<newline>''))
                 @ js ''\<newline>--foo_bar_baz--''))
             (\<not> isl (client_request_outcome env (Suc (Suc (length (trace s))))))]"
    if a: "files_list_outcome env (length (trace s)) = Inr (f # fs)"
      and b: "files_get_outcome env (Suc (length (trace s))) = Inr currentContent"
      and c: "file_id f = []"
    unfolding saveToDrive_found[OF a b] using c
    by (simp add: new_effects_def writeRequest_def truthy_def postRequest_def
        multipartRequestBody_def finalContent_def newEntry_def)
  show ?thesis
    using absent patch post toLocaleTimeString_digits[of t] by blast
qed

lemma metadata_examples:
  "createMetadata (js ''2026-02-20.md'') (js ''folder1'')
     = js ''{\"name\":\"2026-02-20.md\",\"mimeType\":\"text/markdown\",\"parents\":[\"folder1\"]}''"
  "updateMetadata (js ''2026-02-20.md'')
     = js ''{\"name\":\"2026-02-20.md\",\"mimeType\":\"text/markdown\"}''"
  by (simp_all add: createMetadata_def updateMetadata_def JSON_stringify_string_def js_def
      isLeadingSurrogate_def isTrailingSurrogate_def)


lemma empty_id_env_facts:
  "files_list_outcome empty_id_env n = Inr [nameless_file]" "clock empty_id_env n = example_date"
  "files_get_outcome empty_id_env n = Inr (js ''## 09:00\<newline>first'')"
  "FOLDER_ID (APP_CONFIG empty_id_env) = js ''folder1''"
  "client_request_outcome empty_id_env n = Inr ()" "file_id nameless_file = []"
  by (simp_all add: empty_id_env_def found_env_def good_env_def example_config_def
      nameless_file_def)


lemma synced_body:
  "trim ([] @ (js ''\<newline>## '' @ js ''22:54'' @ js ''\<newline>''
               @ js ''\<newline>(Synced from offline)\<newline>milk\<newline>'' @ js ''\<newline>''))
     = js ''## 22:54\<newline>\<newline>(Synced from offline)\<newline>milk''"
  by (simp add: trim_def trimStart_def trimEnd_def js_def isWhiteSpace_def)

theorem drive_entry_and_body_witness:
  "new_effects drive_page (snd (saveToDrive good_env (js ''milk'') drive_page)) =
     [Net (listRequest (js ''2026-02-20.md'') (js ''folder1'')) True,
      Net (ClientRequest (js ''/upload/drive/v3/files'') (js ''POST'') (js ''multipart'')
             (js ''multipart/related; boundary=foo_bar_baz'')
             (js ''--foo_bar_baz\<newline>Content-Type: application/json; charset=UTF-8\<newline>\<newline>{\"name\":\"2026-02-20.md\",\"mimeType\":\"text/markdown\",\"parents\":[\"folder1\"]}\<newline>--foo_bar_baz\<newline>Content-Type: text/markdown\<newline>\<newline>## 22:54\<newline>milk\<newline>--foo_bar_baz--'')) True]
   \<and> new_effects drive_page
         (snd (saveToDrive good_env (js ''\<newline>(Synced from offline)\<newline>milk\<newline>'') drive_page)) =
     [Net (listRequest (js ''2026-02-20.md'') (js ''folder1'')) True,
      Net (ClientRequest (js ''/upload/drive/v3/files'') (js ''POST'') (js ''multipart'')
             (js ''multipart/related; boundary=foo_bar_baz'')
             (js ''--foo_bar_baz\<newline>Content-Type: application/json; charset=UTF-8\<newline>\<newline>{\"name\":\"2026-02-20.md\",\"mimeType\":\"text/markdown\",\"parents\":[\"folder1\"]}\<newline>--foo_bar_baz\<newline>Content-Type: text/markdown\<newline>\<newline>## 22:54\<newline>\<newline>(Synced from offline)\<newline>milk\<newline>--foo_bar_baz--'')) True]
   \<and> new_effects drive_page (snd (saveToDrive found_env (js ''milk'') drive_page)) =
     [Net (listRequest (js ''2026-02-20.md'') (js ''folder1'')) True,
      Net (FilesGet (js ''f1'') (js ''media'')) True,
      Net (ClientRequest (js ''/upload/drive/v3/files/f1'') (js ''PATCH'') (js ''multipart'')
             (js ''multipart/related; boundary=foo_bar_baz'')
             (js ''--foo_bar_baz\<newline>Content-Type: application/json; charset=UTF-8\<newline>\<newline>{\"name\":\"2026-02-20.md\",\"mimeType\":\"text/markdown\"}\<newline>--foo_bar_baz\<newline>Content-Type: text/markdown\<newline>\<newline>## 09:00\<newline>first\<newline>## 22:54\<newline>milk\<newline>--foo_bar_baz--'')) True]
   \<and> new_effects drive_page (snd (saveToDrive empty_id_env (js ''milk'') drive_page)) =
     [Net (listRequest (js ''2026-02-20.md'') (js ''folder1'')) True,
      Net (FilesGet [] (js ''media'')) True,
      Net (ClientRequest (js ''/upload/drive/v3/files'') (js ''POST'') (js ''multipart'')
             (js ''multipart/related; boundary=foo_bar_baz'')
             (js ''--foo_bar_baz\<newline>Content-Type: application/json; charset=UTF-8\<newline>\<newline>{\"name\":\"2026-02-20.md\",\"mimeType\":\"text/markdown\",\"parents\":[\"folder1\"]}\<newline>--foo_bar_baz\<newline>Content-Type: text/markdown\<newline>\<newline>## 09:00\<newline>first\<newline>## 22:54\<newline>milk\<newline>--foo_bar_baz--'')) True]
   \<and> toLocaleTimeString example_date = [digit 2, digit 2] @ js '':'' @ [digit 5, digit 4]"
proof -
  have h: "getHours example_date < 24" "getMinutes example_date < 60"
          "getHours example_date = 22" "getMinutes example_date = 54"
    by (simp_all add: example_date_def)
  have t0: "trace drive_page = []" by (simp add: drive_page_def)
  have id1: "file_id todays_file \<noteq> []" by (simp add: found_env_facts js_def)
  note T = drive_entry_and_body
  have 1: "new_effects drive_page (snd (saveToDrive good_env (js ''milk'') drive_page)) =
     [Net (listRequest (js ''2026-02-20.md'') (js ''folder1'')) True,
      Net (ClientRequest (js ''/upload/drive/v3/files'') (js ''POST'') (js ''multipart'')
             (js ''multipart/related; boundary=foo_bar_baz'')
             (js ''--foo_bar_baz\<newline>Content-Type: application/json; charset=UTF-8\<newline>\<newline>''
              @ js ''{\"name\":\"2026-02-20.md\",\"mimeType\":\"text/markdown\",\"parents\":[\"folder1\"]}''
              @ js ''\<newline>--foo_bar_baz\<newline>Content-Type: text/markdown\<newline>\<newline>''
              @ js ''## 22:54\<newline>milk'' @ js ''\<newline>--foo_bar_baz--'')) True]"
    using T[where env = good_env and s = drive_page and content = "js ''milk''", THEN conjunct1]
          milk_body_first
    by (simp add: good_env_facts t0 new_Date_def example_time example_name metadata_examples)
  have 2: "new_effects drive_page
         (snd (saveToDrive good_env (js ''\<newline>(Synced from offline)\<newline>milk\<newline>'') drive_page)) =
     [Net (listRequest (js ''2026-02-20.md'') (js ''folder1'')) True,
      Net (ClientRequest (js ''/upload/drive/v3/files'') (js ''POST'') (js ''multipart'')
             (js ''multipart/related; boundary=foo_bar_baz'')
             (js ''--foo_bar_baz\<newline>Content-Type: application/json; charset=UTF-8\<newline>\<newline>''
              @ js ''{\"name\":\"2026-02-20.md\",\"mimeType\":\"text/markdown\",\"parents\":[\"folder1\"]}''
              @ js ''\<newline>--foo_bar_baz\<newline>Content-Type: text/markdown\<newline>\<newline>''
              @ js ''## 22:54\<newline>\<newline>(Synced from offline)\<newline>milk''
              @ js ''\<newline>--foo_bar_baz--'')) True]"
    using T[where env = good_env and s = drive_page
              and content = "js ''\<newline>(Synced from offline)\<newline>milk\<newline>''", THEN conjunct1]
          synced_body
    by (simp add: good_env_facts t0 new_Date_def example_time example_name metadata_examples)
  have 3: "new_effects drive_page (snd (saveToDrive found_env (js ''milk'') drive_page)) =
     [Net (listRequest (js ''2026-02-20.md'') (js ''folder1'')) True,
      Net (FilesGet (js ''f1'') (js ''media'')) True,
      Net (ClientRequest (js ''/upload/drive/v3/files/'' @ js ''f1'') (js ''PATCH'') (js ''multipart'')
             (js ''multipart/related; boundary=foo_bar_baz'')
             (js ''--foo_bar_baz\<newline>Content-Type: application/json; charset=UTF-8\<newline>\<newline>''
              @ js ''{\"name\":\"2026-02-20.md\",\"mimeType\":\"text/markdown\"}''
              @ js ''\<newline>--foo_bar_baz\<newline>Content-Type: text/markdown\<newline>\<newline>''
              @ js ''## 09:00\<newline>first\<newline>## 22:54\<newline>milk''
              @ js ''\<newline>--foo_bar_baz--'')) True]"
    using T[where env = found_env and s = drive_page and content = "js ''milk''"
              and f = todays_file and fs = "[]" and currentContent = "js ''## 09:00\<newline>first''",
            THEN conjunct2, THEN conjunct1]
          milk_body_second id1
    by (simp add: found_env_facts t0 new_Date_def example_time example_name metadata_examples)
  have 4: "new_effects drive_page (snd (saveToDrive empty_id_env (js ''milk'') drive_page)) =
     [Net (listRequest (js ''2026-02-20.md'') (js ''folder1'')) True,
      Net (FilesGet [] (js ''media'')) True,
      Net (ClientRequest (js ''/upload/drive/v3/files'') (js ''POST'') (js ''multipart'')
             (js ''multipart/related; boundary=foo_bar_baz'')
             (js ''--foo_bar_baz\<newline>Content-Type: application/json; charset=UTF-8\<newline>\<newline>''
              @ js ''{\"name\":\"2026-02-20.md\",\"mimeType\":\"text/markdown\",\"parents\":[\"folder1\"]}''
              @ js ''\<newline>--foo_bar_baz\<newline>Content-Type: text/markdown\<newline>\<newline>''
              @ js ''## 09:00\<newline>first\<newline>## 22:54\<newline>milk''
              @ js ''\<newline>--foo_bar_baz--'')) True]"
    using T[where env = empty_id_env and s = drive_page and content = "js ''milk''"
              and f = nameless_file and fs = "[]" and currentContent = "js ''## 09:00\<newline>first''",
            THEN conjunct2, THEN conjunct2, THEN conjunct1]
          milk_body_second
    by (simp add: empty_id_env_facts t0 new_Date_def example_time example_name metadata_examples)
  have 5: "toLocaleTimeString example_date = [digit 2, digit 2] @ js '':'' @ [digit 5, digit 4]"
    using T[where t = example_date, THEN conjunct2, THEN conjunct2, THEN conjunct2] h by simp
  show ?thesis
    using 1 2 3 4 5 by (simp add: js_def)
qed

text \<open>
  The entry for the note \<open>milk\<close> at 22:54, cut at its newlines, is an empty line, the
  heading, the note and an empty line: the line after the heading is the note, not a blank
  line. Appended to a document of one entry it gives a document of four lines, none blank.
\<close>

theorem drive_entry_blank_lines_counterexample:
  "splitLines (newEntry (toLocaleTimeString example_date) (js ''milk''))
     = [[], js ''## 22:54'', js ''milk'', []]
   \<and> splitLines (newEntry (toLocaleTimeString example_date) (js ''milk''))
     \<noteq> [[], js ''## 22:54'', [], js ''milk'', []]
   \<and> splitLines (finalContent (js ''## 09:00\<newline>first'') (toLocaleTimeString example_date)
                   (js ''milk''))
     = [js ''## 09:00'', js ''first'', js ''## 22:54'', js ''milk'']"
  by (simp add: example_time newEntry_def finalContent_def trim_def trimStart_def trimEnd_def
      js_def isWhiteSpace_def)





text \<open>
  C9. The body that the sync of the drive variant hands to the adapter is the
  concatenation, in the order of the queue, of one piece per queued memo: a newline, the
  line \<open>(Synced from offline)\<close>, a newline, the text of the memo and a newline; so every
  queued text is in it once, at its place. The queue holds the memos in the order in which
  they were saved. The effects of a sync that runs are those of one call of the adapter
  with that body, followed by the removal of the key or by the log of the error.
\<close>

theorem sync_combined_body_in_queue_order:
  "combinedText pending =
     concat (map (\<lambda>item. js ''\<newline>(Synced from offline)\<newline>'' @ memo_text item @ js ''\<newline>'')
               pending)
   \<and> map memo_text (getPending (foldl (\<lambda>s t. saveToLocal env t s) d0 ts))
       = map memo_text (getPending d0) @ ts
   \<and> (STATE_isOnline d \<longrightarrow> STATE_isAuthenticated d \<longrightarrow> getPending d \<noteq> [] \<longrightarrow>
       (let body = concat (map (\<lambda>item. js ''\<newline>(Synced from offline)\<newline>''
                                         @ memo_text item @ js ''\<newline>'') (getPending d));
            run = saveToDrive env body (updateStatus (js ''Syncing...'') (js ''syncing'') d)
        in new_effects d (syncPendingData env d) =
             new_effects d (snd run)
             @ (case fst run of
                  Inr u \<Rightarrow> [RemoveItem pending_memos]
                | Inl e \<Rightarrow> [ConsoleError (js ''Sync failed'') e])))"
  using combinedText_concat[of pending] saveToLocal_order[of env d0 ts]
        syncPendingData_effects[of d env]
  by (simp add: Let_def combinedText_concat)

theorem sync_combined_body_in_queue_order_witness:
  "combinedText [memo1, memo2]
     = js ''\<newline>(Synced from offline)\<newline>milk\<newline>\<newline>(Synced from offline)\<newline>eggs\<newline>''
   \<and> map memo_text (getPending (foldl (\<lambda>s t. saveToLocal good_env t s) drive_page
                                    [js ''milk'', js ''eggs'']))
       = [js ''milk'', js ''eggs'']
   \<and> new_effects drive_queued (syncPendingData good_env drive_queued) =
        [Net (listRequest (js ''2026-02-20.md'') (js ''folder1'')) True,
         Net (postRequest (js ''folder1'') (js ''2026-02-20.md'')
                (js ''## 22:54\<newline>\<newline>(Synced from offline)\<newline>milk\<newline>\<newline>(Synced from offline)\<newline>eggs'')) True,
         RemoveItem pending_memos]"
proof -
  have q: "STATE_isOnline drive_queued" "STATE_isAuthenticated drive_queued"
          "getPending drive_queued = [memo1, memo2]" "getPending drive_page = []"
          "trace drive_queued = []"
    by (simp_all add: drive_queued_def drive_page_def getPending_def)
  have m: "memo_text memo1 = js ''milk''" "memo_text memo2 = js ''eggs''"
    by (simp_all add: memo1_def memo2_def)
  let ?body = "js ''\<newline>(Synced from offline)\<newline>milk\<newline>\<newline>(Synced from offline)\<newline>eggs\<newline>''"
  let ?s1 = "updateStatus (js ''Syncing...'') (js ''syncing'') drive_queued"
  have c: "js ''\<newline>(Synced from offline)\<newline>'' @ js ''milk'' @ js ''\<newline>''
           @ js ''\<newline>(Synced from offline)\<newline>'' @ js ''eggs'' @ js ''\<newline>'' = ?body"
    by (simp add: js_def)
  have l: "files_list_outcome good_env (length (trace ?s1)) = Inr []"
    by (simp add: good_env_facts)
  have b: "finalContent [] (js ''22:54'') ?body
             = js ''## 22:54\<newline>\<newline>(Synced from offline)\<newline>milk\<newline>\<newline>(Synced from offline)\<newline>eggs''"
    by (simp add: finalContent_def newEntry_def trim_def trimStart_def trimEnd_def js_def
        isWhiteSpace_def)
  have run: "fst (saveToDrive good_env ?body ?s1) = Inr ()"
       "new_effects drive_queued (snd (saveToDrive good_env ?body ?s1)) =
          [Net (listRequest (js ''2026-02-20.md'') (js ''folder1'')) True,
           Net (postRequest (js ''folder1'') (js ''2026-02-20.md'')
                (js ''## 22:54\<newline>\<newline>(Synced from offline)\<newline>milk\<newline>\<newline>(Synced from offline)\<newline>eggs'')) True]"
    unfolding saveToDrive_absent[OF l]
    by (simp_all add: new_effects_def good_env_facts new_Date_def example_name example_time b
        writeRequest_def truthy_def q updateStatus_def)
  show ?thesis
    using sync_combined_body_in_queue_order
            [where pending = "[memo1, memo2]" and env = good_env and ?d0.0 = drive_page
               and ts = "[js ''milk'', js ''eggs'']" and d = drive_queued]
          q m c run
    by (simp add: Let_def)
qed

end
